theory Spec2Isabelle
  imports Complex_Main "HOL-Library.Log_Nat"
begin

section \<open>Python values and exceptions\<close>

text \<open>
  The values that reach the functions of \<^verbatim>\<open>proplot/axes/geo.py\<close>: \<^verbatim>\<open>None\<close>, booleans,
  integers, floats (by their values), strings, sequences, dictionaries with string keys, and
  opaque objects of matplotlib and cartopy, which are known by a name only.
\<close>

datatype pyval =
    PyNone
  | PyBool bool
  | PyInt int
  | PyFloat real
  | PyStr string
  | PySeq "pyval list"
  | PyDict "(string \<times> pyval) list"
  | PyObj string

datatype error =
    ValueError
  | IndexError
  | TypeError
  | AttributeError
  | ModuleNotFoundError
  | ExternalError string

type_synonym kwargs = "(string \<times> pyval) list"

text \<open>\<^verbatim>\<open>isinstance(labels, str)\<close>.\<close>

fun is_str :: "pyval \<Rightarrow> bool" where
  "is_str (PyStr s) = True"
| "is_str v = False"

fun is_bool :: "pyval \<Rightarrow> bool" where
  "is_bool (PyBool b) = True"
| "is_bool v = False"

text \<open>The truth value of a Python value, as \<^verbatim>\<open>any\<close>, \<^verbatim>\<open>not\<close> and \<^verbatim>\<open>or\<close> read it.\<close>

fun py_truthy :: "pyval \<Rightarrow> bool" where
  "py_truthy PyNone = False"
| "py_truthy (PyBool b) = b"
| "py_truthy (PyInt i) = (i \<noteq> 0)"
| "py_truthy (PyFloat x) = (x \<noteq> 0)"
| "py_truthy (PyStr s) = (s \<noteq> [])"
| "py_truthy (PySeq xs) = (xs \<noteq> [])"
| "py_truthy (PyDict d) = (d \<noteq> [])"
| "py_truthy (PyObj n) = True"

text \<open>\<^verbatim>\<open>d[k] = v\<close> and \<^verbatim>\<open>d.update(kw)\<close> on a dictionary, which keeps the order of its keys.\<close>

fun dict_set :: "kwargs \<Rightarrow> string \<Rightarrow> pyval \<Rightarrow> kwargs" where
  "dict_set [] k v = [(k, v)]"
| "dict_set ((k', v') # rest) k v =
     (if k' = k then (k, v) # rest else (k', v') # dict_set rest k v)"

definition dict_update :: "kwargs \<Rightarrow> kwargs \<Rightarrow> kwargs" where
  "dict_update d kw = foldl (\<lambda>d (k, v). dict_set d k v) d kw"

subsection \<open>Arrays of numpy\<close>

text \<open>
  \<^verbatim>\<open>np.atleast_1d\<close> is numpy's; the functions of this file that call it take its result
  as an argument. What follows is its result on \<^verbatim>\<open>None\<close>, on a boolean and on the
  sequences of Python booleans and strings, and \<open>None\<close> on every other argument, where it
  is not modelled. The array of \<^verbatim>\<open>None\<close> or of a boolean has that one element, and an
  array of booleans holds the booleans. When one element is a string, all elements become
  strings: a boolean becomes \<^verbatim>\<open>'True'\<close> or \<^verbatim>\<open>'False'\<close>, and a string loses the
  null characters at its end.
\<close>

definition np_str_element :: "string \<Rightarrow> string" where
  "np_str_element s = rev (dropWhile (\<lambda>c. c = CHR 0x00) (rev s))"

fun np_str :: "pyval \<Rightarrow> pyval" where
  "np_str (PyBool b) = PyStr (if b then ''True'' else ''False'')"
| "np_str (PyStr s) = PyStr (np_str_element s)"
| "np_str v = v"

definition np_atleast_1d_seq :: "pyval list \<Rightarrow> pyval list option" where
  "np_atleast_1d_seq xs =
     (if list_all is_bool xs then Some xs
      else if list_all (\<lambda>x. is_bool x \<or> is_str x) xs then Some (map np_str xs)
      else None)"

fun np_atleast_1d :: "pyval \<Rightarrow> pyval list option" where
  "np_atleast_1d (PySeq xs) = np_atleast_1d_seq xs"
| "np_atleast_1d (PyBool b) = Some [PyBool b]"
| "np_atleast_1d PyNone = Some [PyNone]"
| "np_atleast_1d v = None"

subsection \<open>Double-precision arithmetic\<close>

text \<open>
  A Python float is an IEEE double, modelled by its value. An operation gives the double
  nearest to the exact result, a tie going to the even significand of 53 bits.
  \<open>binary_exponent x\<close> is, for a positive \<open>x\<close>, the \<open>e\<close> with \<open>2 ^ e \<le> x < 2 ^ (e + 1)\<close>.
  The range of the exponent is not bounded: the sums and differences taken here of finite
  doubles are far from overflow, and a result below the normal range is exact.
\<close>

definition round_half_even :: "real \<Rightarrow> int" where
  "round_half_even x =
     (let f = \<lfloor>x\<rfloor>; d = x - of_int f
      in if d < 1 / 2 then f else if d > 1 / 2 then f + 1 else if even f then f else f + 1)"

definition binary_exponent :: "real \<Rightarrow> int" where
  "binary_exponent x = (if 1 \<le> x then bitlen \<lfloor>x\<rfloor> - 1 else - bitlen (\<lceil>1 / x\<rceil> - 1))"

definition round_double :: "real \<Rightarrow> real" where
  "round_double x =
     (if x = 0 then 0
      else let s = 2 powi (binary_exponent \<bar>x\<bar> - 52)
           in of_int (round_half_even (x / s)) * s)"


section \<open>The dummy longitude and latitude axes\<close>

subsection \<open>\<^verbatim>\<open>_LonAxis._constrain_ticks\<close>\<close>

text \<open>The literal \<^verbatim>\<open>5e-10\<close> of line 138 is the double nearest to it.\<close>

definition lon_eps :: real where
  "lon_eps = round_double (5 / 10 ^ 10)"

text \<open>
  The comparison \<^verbatim>\<open>ticks[-1] - eps > ticks[0] + 360 + eps\<close> of line 140 on a list of
  floats that is not empty: each difference and sum is rounded, the sum from the left.
\<close>

definition LonAxis_looped :: "real list \<Rightarrow> bool" where
  "LonAxis_looped ticks \<longleftrightarrow>
     round_double (last ticks - lon_eps)
       > round_double (round_double (hd ticks + 360) + lon_eps)"

text \<open>
  The \<^verbatim>\<open>while\<close> loop of lines 140-141:
  \<^verbatim>\<open>while ticks and ticks[-1] - eps > ticks[0] + 360 + eps: ticks = ticks[:-1]\<close>.
\<close>

function LonAxis_cut_looped :: "real list \<Rightarrow> real list" where
  "LonAxis_cut_looped ticks =
     (if ticks \<noteq> [] \<and> LonAxis_looped ticks
      then LonAxis_cut_looped (butlast ticks)
      else ticks)"
  by pat_completeness auto
termination
  by (relation "measure length") auto

definition LonAxis_constrain_ticks :: "real list \<Rightarrow> real list" where
  "LonAxis_constrain_ticks ticks = LonAxis_cut_looped (sort ticks)"

subsection \<open>\<^verbatim>\<open>_LatAxis._constrain_ticks\<close>\<close>

definition lat_eps :: real where
  "lat_eps = 1 / 10 ^ 10"

text \<open>
  \<^verbatim>\<open>ticks[0]\<close> on the empty filtered list raises \<^verbatim>\<open>IndexError\<close>; on a list that is
  not empty \<^verbatim>\<open>ticks[0]\<close> and \<^verbatim>\<open>ticks[-1]\<close> are its first and last elements, and the
  second test reads the list after the first update.
\<close>

definition LatAxis_constrain_ticks :: "real \<Rightarrow> real list \<Rightarrow> error + real list" where
  "LatAxis_constrain_ticks latmax ticks =
     (let ticks1 = filter (\<lambda>l. - latmax \<le> l \<and> l \<le> latmax) ticks in
      if ticks1 = [] then Inl IndexError
      else
        let ticks2 = (if ticks1 ! 0 = - 90 then ticks1[0 := ticks1 ! 0 + lat_eps] else ticks1);
            n = length ticks2 - 1;
            ticks3 = (if ticks2 ! n = 90 then ticks2[n := ticks2 ! n - lat_eps] else ticks2)
        in Inr ticks3)"


section \<open>\<^verbatim>\<open>GeoAxes\<close>\<close>

subsection \<open>\<^verbatim>\<open>GeoAxes._axis_below_to_zorder\<close>\<close>

text \<open>
  \<^verbatim>\<open>axisbelow is True\<close> and \<^verbatim>\<open>axisbelow is False\<close> are identity tests: only the two
  booleans pass them (the integer 1 does not). \<^verbatim>\<open>axisbelow == 'lines'\<close> holds of the
  string only.
\<close>

definition axis_below_to_zorder :: "pyval \<Rightarrow> error + real" where
  "axis_below_to_zorder axisbelow =
     (if axisbelow = PyBool True then Inr (1 / 2)
      else if axisbelow = PyBool False then Inr (5 / 2)
      else if axisbelow = PyStr ''lines'' then Inr (3 / 2)
      else Inl ValueError)"

subsection \<open>\<^verbatim>\<open>GeoAxes._to_label_array\<close>\<close>

text \<open>
  The loop \<^verbatim>\<open>for idx, char in zip([0, 1, 2, 3], 'lrbt'): if char in labels: array[idx] = 1\<close>
  over the array \<^verbatim>\<open>[0] * 4\<close>.
\<close>

fun label_string_loop :: "(nat \<times> char) list \<Rightarrow> string \<Rightarrow> pyval list \<Rightarrow> pyval list" where
  "label_string_loop [] labels array = array"
| "label_string_loop ((idx, c) # rest) labels array =
     label_string_loop rest labels (if c \<in> set labels then array[idx := PyInt 1] else array)"

text \<open>
  \<open>np_array\<close> is \<^verbatim>\<open>np.atleast_1d(labels)\<close>, the array that numpy makes of the argument;
  line 566 takes it only when \<^verbatim>\<open>labels\<close> is neither \<^verbatim>\<open>None\<close> nor a string. The result
  is the array as a list; the 4-tuple returned for \<^verbatim>\<open>None\<close> is the list of its four
  entries.
\<close>

definition to_label_array :: "pyval \<Rightarrow> pyval list \<Rightarrow> bool \<Rightarrow> error + pyval list" where
  "to_label_array labels np_array lon =
     (if labels = PyNone then Inr (replicate 4 PyNone)
      else
        let array = (if is_str labels
                     then label_string_loop (zip [0, 1, 2, 3] ''lrbt'')
                            (case labels of PyStr s \<Rightarrow> s | _ \<Rightarrow> []) (replicate 4 (PyInt 0))
                     else np_array);
            array = (if length array = 1 then array @ [PyInt 0] else array)
        in if length array = 2
           then (if lon then Inr ([PyInt 0, PyInt 0] @ array) else Inr (array @ [PyInt 0, PyInt 0]))
           else if length array \<noteq> 4 then Inl ValueError
           else Inr array)"


section \<open>\<^verbatim>\<open>CartopyAxes\<close>\<close>

subsection \<open>Library versions\<close>

text \<open>
  Modelled from the spec: \<^verbatim>\<open>_version\<close> and \<^verbatim>\<open>_version_cartopy\<close> of
  \<^verbatim>\<open>proplot.internals\<close>, which is not part of this file. A version is its major and minor
  number, and "at least" and "below" compare the pairs lexicographically. The installed
  cartopy version is a parameter of every function that reads it.
\<close>

type_synonym version = "nat \<times> nat"

definition version_ge :: "version \<Rightarrow> version \<Rightarrow> bool" where
  "version_ge v w = (fst v > fst w \<or> (fst v = fst w \<and> snd v \<ge> snd w))"

definition version_lt :: "version \<Rightarrow> version \<Rightarrow> bool" where
  "version_lt v w = (\<not> version_ge v w)"

subsection \<open>\<^verbatim>\<open>CartopyAxes._toggle_gridliner_labels\<close>\<close>

text \<open>An object is its attribute dictionary; \<^verbatim>\<open>setattr(gl, name, value)\<close> updates it.\<close>

type_synonym attrs = "string \<rightharpoonup> pyval"

definition setattr :: "attrs \<Rightarrow> string \<Rightarrow> pyval \<Rightarrow> attrs" where
  "setattr obj name v = obj(name \<mapsto> v)"

definition toggle_gridliner_labels ::
  "version \<Rightarrow> attrs \<Rightarrow> pyval \<Rightarrow> pyval \<Rightarrow> pyval \<Rightarrow> pyval \<Rightarrow> attrs" where
  "toggle_gridliner_labels version_cartopy gl left right bottom top' =
     (let (left_labels, right_labels, bottom_labels, top_labels) =
            (if version_ge version_cartopy (0, 18)
             then (''left_labels'', ''right_labels'', ''bottom_labels'', ''top_labels'')
             else (''ylabels_left'', ''ylabels_right'', ''xlabels_bottom'', ''xlabels_top''));
          gl = (if left \<noteq> PyNone then setattr gl left_labels left else gl);
          gl = (if right \<noteq> PyNone then setattr gl right_labels right else gl);
          gl = (if bottom \<noteq> PyNone then setattr gl bottom_labels bottom else gl);
          gl = (if top' \<noteq> PyNone then setattr gl top_labels top' else gl)
      in gl)"


section \<open>Construction of the axes\<close>

subsection \<open>Projections\<close>

text \<open>
  The classes of \<^verbatim>\<open>cartopy.crs\<close> and \<^verbatim>\<open>proplot.crs\<close> that this file tests with
  \<^verbatim>\<open>isinstance\<close>; every other projection class is known by its name. A class stands for
  its subclasses too.
\<close>

datatype cartopy_class =
    NorthPolarStereo
  | NorthPolarGnomonic
  | NorthPolarAzimuthalEquidistant
  | NorthPolarLambertAzimuthalEqualArea
  | SouthPolarStereo
  | SouthPolarGnomonic
  | SouthPolarAzimuthalEquidistant
  | SouthPolarLambertAzimuthalEqualArea
  | Mercator
  | PlateCarree
  | OtherProjection string

text \<open>
  A \<^verbatim>\<open>Basemap\<close> object, by the attributes that \<^verbatim>\<open>BasemapAxes.__init__\<close> reads with
  \<^verbatim>\<open>getattr\<close>: a field is \<open>None\<close> when the attribute is missing, and the four bounds
  may also hold Python's \<^verbatim>\<open>None\<close>.
\<close>

record basemap =
  bm_projection :: string
  bm_boundinglat :: "real option"
  bm_lonmin :: "real option"
  bm_lonmax :: "real option"
  bm_latmin :: "real option"
  bm_latmax :: "real option"
  bm_lon_0 :: "real option"

text \<open>The values the keyword \<^verbatim>\<open>map_projection\<close> can hold.\<close>

datatype map_projection =
    CartopyProjection cartopy_class
  | BasemapProjection basemap
  | OtherValue pyval

fun is_cartopy_projection :: "map_projection \<Rightarrow> bool" where
  "is_cartopy_projection (CartopyProjection c) = True"
| "is_cartopy_projection mp = False"

fun is_basemap :: "map_projection \<Rightarrow> bool" where
  "is_basemap (BasemapProjection b) = True"
| "is_basemap mp = False"

subsection \<open>\<^verbatim>\<open>CartopyAxes.__init__\<close>\<close>

definition cartopy_proj_north :: "cartopy_class list" where
  "cartopy_proj_north =
     [NorthPolarStereo, NorthPolarGnomonic, NorthPolarAzimuthalEquidistant,
      NorthPolarLambertAzimuthalEqualArea]"

definition cartopy_proj_south :: "cartopy_class list" where
  "cartopy_proj_south =
     [SouthPolarStereo, SouthPolarGnomonic, SouthPolarAzimuthalEquidistant,
      SouthPolarLambertAzimuthalEqualArea]"

definition cartopy_proj_polar :: "cartopy_class list" where
  "cartopy_proj_polar = cartopy_proj_north @ cartopy_proj_south"

datatype warning =
    CannotAddGridlineLabels cartopy_class
  | CannotZoomBasemap pyval pyval pyval

text \<open>
  The state of a \<^verbatim>\<open>CartopyAxes\<close>: the attributes that this file assigns, and the
  gridliner objects that \<^verbatim>\<open>self.gridlines()\<close> has created so far, in the order of their
  creation. A gridliner is referred to by its position in that list.
\<close>

record cartopy_axes =
  ca_boundinglat :: pyval
  ca_map_projection :: cartopy_class
  ca_gridlines_major :: "nat option"
  ca_gridlines_minor :: "nat option"
  ca_latmax :: real
  ca_gridliners :: "attrs list"
  ca_warnings :: "warning list"

text \<open>
  Lines 627-647. \<^verbatim>\<open>import cartopy\<close> raises \<^verbatim>\<open>ModuleNotFoundError\<close> when cartopy is
  not installed. The result is the state before \<^verbatim>\<open>super().__init__\<close>, which is
  matplotlib's and cartopy's.
\<close>

definition CartopyAxes_init :: "bool \<Rightarrow> map_projection \<Rightarrow> error + cartopy_axes" where
  "CartopyAxes_init cartopy_installed mp =
     (if \<not> cartopy_installed then Inl ModuleNotFoundError
      else case mp of
        CartopyProjection c \<Rightarrow>
          (let polar = (c \<in> set cartopy_proj_polar);
               latmax = (if polar then 80 else 90);
               boundinglat =
                 (if polar
                  then (if c = NorthPolarGnomonic then PyInt 30
                        else if c = SouthPolarGnomonic then PyInt (- 30)
                        else PyInt 0)
                  else PyNone)
           in Inr \<lparr>ca_boundinglat = boundinglat, ca_map_projection = c,
                    ca_gridlines_major = None, ca_gridlines_minor = None,
                    ca_latmax = latmax, ca_gridliners = [], ca_warnings = []\<rparr>)
      | _ \<Rightarrow> Inl ValueError)"

subsection \<open>\<^verbatim>\<open>BasemapAxes.__init__\<close>\<close>

definition basemap_proj_north :: "string list" where
  "basemap_proj_north = [''npaeqd'', ''nplaea'', ''npstere'']"

definition basemap_proj_south :: "string list" where
  "basemap_proj_south = [''spaeqd'', ''splaea'', ''spstere'']"

definition basemap_proj_polar :: "string list" where
  "basemap_proj_polar = basemap_proj_north @ basemap_proj_south"

record basemap_axes =
  ba_map_projection :: basemap
  ba_map_boundary :: pyval
  ba_has_recurred :: bool
  ba_lonlines_major :: pyval
  ba_lonlines_minor :: pyval
  ba_latlines_major :: pyval
  ba_latlines_minor :: pyval
  ba_lon_interval :: "real \<times> real"
  ba_lat_interval :: "real \<times> real"
  ba_latmax :: real

text \<open>\<^verbatim>\<open>getattr(self.projection, 'projparams', {}).get('lon_0', 0)\<close>.\<close>

definition basemap_get_lon0 :: "basemap \<Rightarrow> real" where
  "basemap_get_lon0 b = (case bm_lon_0 b of None \<Rightarrow> 0 | Some l \<Rightarrow> l)"

text \<open>
  Lines 1142-1174: the state before \<^verbatim>\<open>super().__init__\<close>. The extent is the list of
  four numbers that \<^verbatim>\<open>_set_view_intervals\<close> splits into the two view intervals.
\<close>

definition BasemapAxes_extent :: "basemap \<Rightarrow> real list" where
  "BasemapAxes_extent b =
     (let lon0 = basemap_get_lon0 b in
      if bm_projection b \<in> set basemap_proj_polar
      then (let boundinglat = (case bm_boundinglat b of None \<Rightarrow> 0 | Some l \<Rightarrow> l) in
            [- 180 + lon0, 180 + lon0] @
            (if bm_projection b \<in> set basemap_proj_north
             then [boundinglat, 90] else [- 90, boundinglat]))
      else (case (bm_lonmin b, bm_lonmax b, bm_latmin b, bm_latmax b) of
              (Some x0, Some x1, Some y0, Some y1) \<Rightarrow> [x0, x1, y0, y1]
            | _ \<Rightarrow> [180 - lon0, 180 + lon0, - 90, 90]))"

definition BasemapAxes_init :: "bool \<Rightarrow> map_projection \<Rightarrow> error + basemap_axes" where
  "BasemapAxes_init basemap_installed mp =
     (if \<not> basemap_installed then Inl ModuleNotFoundError
      else case mp of
        BasemapProjection b \<Rightarrow>
          (let latmax = (if bm_projection b \<in> set basemap_proj_polar then 80 else 90);
               extent = BasemapAxes_extent b
           in Inr \<lparr>ba_map_projection = b, ba_map_boundary = PyNone, ba_has_recurred = False,
                    ba_lonlines_major = PyNone, ba_lonlines_minor = PyNone,
                    ba_latlines_major = PyNone, ba_latlines_minor = PyNone,
                    ba_lon_interval = (extent ! 0, extent ! 1),
                    ba_lat_interval = (extent ! 2, extent ! 3),
                    ba_latmax = latmax\<rparr>)
      | _ \<Rightarrow> Inl ValueError)"

subsection \<open>\<^verbatim>\<open>BasemapAxes._update_extent\<close>\<close>

text \<open>
  The method takes the axes and returns it, with the warnings it has passed to
  \<^verbatim>\<open>warnings._warn_proplot\<close>.
\<close>

definition BasemapAxes_update_extent ::
  "basemap_axes \<Rightarrow> pyval \<Rightarrow> pyval \<Rightarrow> pyval \<Rightarrow> basemap_axes \<times> warning list" where
  "BasemapAxes_update_extent self lonlim latlim boundinglat =
     (if lonlim \<noteq> PyNone \<or> latlim \<noteq> PyNone \<or> boundinglat \<noteq> PyNone
      then (self, [CannotZoomBasemap lonlim latlim boundinglat])
      else (self, []))"


section \<open>Cartopy gridliners\<close>

subsection \<open>Settings and tick locations\<close>

text \<open>
  The configuration object \<^verbatim>\<open>rc\<close> of \<^verbatim>\<open>proplot.config\<close>, which is not part of this
  file, is a parameter:
  \<open>rc_value rc context key\<close> is \<^verbatim>\<open>rc.get(key, context=context)\<close>, which is \<^verbatim>\<open>None\<close>
  for a setting that the context leaves out, and \<open>rc_context_mode\<close> is
  \<^verbatim>\<open>rc._get_context_mode()\<close>.
\<close>

record rc_settings =
  rc_value :: "bool \<Rightarrow> string \<Rightarrow> pyval"
  rc_context_mode :: nat

text \<open>
  Modelled from the spec: \<^verbatim>\<open>rc.fill(props, context=context)\<close> of \<^verbatim>\<open>proplot.config\<close> is
  the dictionary of the settings named by \<^verbatim>\<open>props\<close>, without those that are \<^verbatim>\<open>None\<close>.
\<close>

definition rc_fill :: "rc_settings \<Rightarrow> (string \<times> string) list \<Rightarrow> bool \<Rightarrow> kwargs" where
  "rc_fill rc props context =
     filter (\<lambda>(k, v). v \<noteq> PyNone) (map (\<lambda>(k, name). (k, rc_value rc context name)) props)"

datatype which = Major | Minor

text \<open>\<^verbatim>\<open>GeoAxes._get_gridline_props\<close>: the line and the text properties.\<close>

definition get_gridline_props ::
  "rc_settings \<Rightarrow> which \<Rightarrow> bool \<Rightarrow> error + (kwargs \<times> kwargs)" where
  "get_gridline_props rc w context =
     (let key = (if w = Major then ''grid'' else ''gridminor'');
          kwlines = rc_fill rc
            [(''alpha'', key @ ''.alpha''), (''color'', key @ ''.color''),
             (''linewidth'', key @ ''.linewidth''), (''linestyle'', key @ ''.linestyle'')]
            context;
          axisbelow = rc_value rc True ''axes.axisbelow'';
          kwtext = (if w = Major
                    then rc_fill rc
                      [(''color'', key @ ''.color''), (''fontsize'', key @ ''.labelsize''),
                       (''weight'', key @ ''.labelweight'')]
                      context
                    else [])
      in if axisbelow \<noteq> PyNone
         then (case axis_below_to_zorder axisbelow of
                 Inl e \<Rightarrow> Inl e
               | Inr zorder \<Rightarrow> Inr (dict_set kwlines ''zorder'' (PyFloat zorder), kwtext))
         else Inr (kwlines, kwtext))"

text \<open>
  What the major and minor locators of the dummy axes return when they are called; the
  locators are matplotlib's.
\<close>

record tick_sources =
  lon_major_ticks :: "real list"
  lon_minor_ticks :: "real list"
  lat_major_ticks :: "real list"
  lat_minor_ticks :: "real list"

text \<open>\<^verbatim>\<open>GeoAxes._get_lonticklocs\<close> and \<^verbatim>\<open>GeoAxes._get_latticklocs\<close>.\<close>

definition get_lonticklocs :: "tick_sources \<Rightarrow> which \<Rightarrow> real list" where
  "get_lonticklocs ts w =
     (if w = Major then LonAxis_constrain_ticks (lon_major_ticks ts)
      else LonAxis_constrain_ticks (lon_minor_ticks ts))"

definition get_latticklocs :: "real \<Rightarrow> tick_sources \<Rightarrow> which \<Rightarrow> error + real list" where
  "get_latticklocs latmax ts w =
     (if w = Major then LatAxis_constrain_ticks latmax (lat_major_ticks ts)
      else LatAxis_constrain_ticks latmax (lat_minor_ticks ts))"

text \<open>\<^verbatim>\<open>mticker.FixedLocator(ticks)\<close>, as the ticks it holds.\<close>

definition FixedLocator :: "real list \<Rightarrow> pyval" where
  "FixedLocator ticks = PySeq (map PyFloat ticks)"

subsection \<open>\<^verbatim>\<open>CartopyAxes._update_gridlines\<close>\<close>

text \<open>\<^verbatim>\<open>getattr(gl, name).update(kw)\<close> on an attribute that holds a dictionary.\<close>

definition attr_dict_update :: "attrs \<Rightarrow> string \<Rightarrow> kwargs \<Rightarrow> error + attrs" where
  "attr_dict_update gl name kw =
     (case gl name of
        Some (PyDict d) \<Rightarrow> Inr (setattr gl name (PyDict (dict_update d kw)))
      | _ \<Rightarrow> Inl AttributeError)"

text \<open>
  Everything that the gridline methods read from outside the axes: the cartopy version,
  the settings, the locators' ticks, the gridliner that \<^verbatim>\<open>self.gridlines()\<close> of cartopy
  returns, and the major formatters of the two dummy axes.
\<close>

record gridline_env =
  ge_version :: version
  ge_rc :: rc_settings
  ge_ticks :: tick_sources
  ge_new_gridliner :: attrs
  ge_lonformatter :: pyval
  ge_latformatter :: pyval

text \<open>
  The gridliner is updated in place, so the result is the gridliner as the method leaves
  it, with the exception when one is raised: from \<^verbatim>\<open>_axis_below_to_zorder\<close> before any
  update, or from \<^verbatim>\<open>_LatAxis._constrain_ticks\<close> after \<^verbatim>\<open>gl.xlocator\<close> is assigned.
\<close>

definition update_gridlines ::
  "gridline_env \<Rightarrow> real \<Rightarrow> attrs \<Rightarrow> which \<Rightarrow> pyval \<Rightarrow> pyval \<Rightarrow> attrs \<times> error option" where
  "update_gridlines env latmax gl w longrid latgrid =
     (case get_gridline_props (ge_rc env) w (rc_context_mode (ge_rc env) = 2) of
        Inl e \<Rightarrow> (gl, Some e)
      | Inr (kwlines, kwtext) \<Rightarrow>
     (case attr_dict_update gl ''collection_kwargs'' kwlines of
        Inl e \<Rightarrow> (gl, Some e)
      | Inr gl1 \<Rightarrow>
     (case attr_dict_update gl1 ''xlabel_style'' kwtext of
        Inl e \<Rightarrow> (gl1, Some e)
      | Inr gl2 \<Rightarrow>
     (case attr_dict_update gl2 ''ylabel_style'' kwtext of
        Inl e \<Rightarrow> (gl2, Some e)
      | Inr gl3 \<Rightarrow>
        (let gl4 = (if longrid \<noteq> PyNone then setattr gl3 ''xlines'' longrid else gl3);
             gl5 = (if latgrid \<noteq> PyNone then setattr gl4 ''ylines'' latgrid else gl4);
             gl6 = setattr gl5 ''xlocator'' (FixedLocator (get_lonticklocs (ge_ticks env) w))
         in case get_latticklocs latmax (ge_ticks env) w of
              Inl e \<Rightarrow> (gl6, Some e)
            | Inr ticks \<Rightarrow> (setattr gl6 ''ylocator'' (FixedLocator ticks), None))))))"

subsection \<open>\<^verbatim>\<open>CartopyAxes._init_gridlines\<close>\<close>

text \<open>
  \<^verbatim>\<open>self.gridlines(crs=ccrs.PlateCarree())\<close> creates a gridliner, which joins the
  gridliners of the axes; the method patches three of its methods, turns its lines off and
  its labels off, and returns it.
\<close>

definition init_gridlines :: "gridline_env \<Rightarrow> cartopy_axes \<Rightarrow> nat \<times> cartopy_axes" where
  "init_gridlines env self =
     (let gl = ge_new_gridliner env;
          gl = setattr gl ''_draw_gridliner'' (PyObj ''_draw_gridliner'');
          gl = setattr gl ''_axes_domain'' (PyObj ''_axes_domain'');
          gl = setattr gl ''_add_gridline_label'' (PyObj ''_add_gridline_label'');
          gl = setattr gl ''xlines'' (PyBool False);
          gl = setattr gl ''ylines'' (PyBool False);
          gl = toggle_gridliner_labels (ge_version env) gl
                 (PyBool False) (PyBool False) (PyBool False) (PyBool False)
      in (length (ca_gridliners self),
          self\<lparr>ca_gridliners := ca_gridliners self @ [gl]\<rparr>))"

subsection \<open>\<^verbatim>\<open>CartopyAxes._update_major_gridlines\<close> and \<^verbatim>\<open>_update_minor_gridlines\<close>\<close>

record major_args =
  ma_longrid :: pyval
  ma_latgrid :: pyval
  ma_lonarray :: "pyval list"
  ma_latarray :: "pyval list"
  ma_loninline :: pyval
  ma_latinline :: pyval
  ma_labelpad :: pyval
  ma_rotate_labels :: pyval

text \<open>
  Lines 931-954: the label parameters, the formatters and the label toggles of a major
  gridliner. \<^verbatim>\<open>*latarray[:2], *lonarray[2:]\<close> must give the four arguments of
  \<^verbatim>\<open>_toggle_gridliner_labels\<close>; any other number is a \<^verbatim>\<open>TypeError\<close>.
\<close>

definition major_gridline_labels ::
  "gridline_env \<Rightarrow> cartopy_class \<Rightarrow> major_args \<Rightarrow> attrs \<Rightarrow>
     (attrs \<times> warning list) \<times> error option" where
  "major_gridline_labels env proj args gl =
     (let gl = (if ma_labelpad args \<noteq> PyNone
                then setattr (setattr gl ''xpadding'' (ma_labelpad args))
                       ''ypadding'' (ma_labelpad args)
                else gl);
          gl = (if ma_loninline args \<noteq> PyNone
                then setattr gl ''x_inline'' (ma_loninline args) else gl);
          gl = (if ma_latinline args \<noteq> PyNone
                then setattr gl ''y_inline'' (ma_latinline args) else gl);
          gl = (if ma_rotate_labels args \<noteq> PyNone
                then setattr gl ''rotate_labels'' (ma_rotate_labels args) else gl);
          gl = setattr gl ''xformatter'' (ge_lonformatter env);
          gl = setattr gl ''yformatter'' (ge_latformatter env);
          old = (version_lt (ge_version env) (0, 18) \<and> proj \<noteq> Mercator \<and> proj \<noteq> PlateCarree);
          warn_lat = (old \<and> (\<exists>v \<in> set (ma_latarray args). py_truthy v));
          latarray = (if warn_lat then replicate 4 (PyInt 0) else ma_latarray args);
          warn_lon = (old \<and> (\<exists>v \<in> set (ma_lonarray args). py_truthy v));
          lonarray = (if warn_lon then replicate 4 (PyInt 0) else ma_lonarray args);
          ws = (if warn_lat then [CannotAddGridlineLabels proj] else []) @
               (if warn_lon then [CannotAddGridlineLabels proj] else [])
      in case take 2 latarray @ drop 2 lonarray of
           [left, right, bottom, top'] \<Rightarrow>
             ((toggle_gridliner_labels (ge_version env) gl left right bottom top', ws), None)
         | _ \<Rightarrow> ((gl, ws), Some TypeError))"

text \<open>
  \<^verbatim>\<open>not self._gridlines_major\<close> holds of \<^verbatim>\<open>None\<close> only: a gridliner object is true.
  The state that is returned is the axes as the method leaves it, also when it raises.
\<close>

definition update_major_gridlines ::
  "gridline_env \<Rightarrow> major_args \<Rightarrow> cartopy_axes \<Rightarrow> cartopy_axes \<times> error option" where
  "update_major_gridlines env args self =
     (let self1 = (if ca_gridlines_major self = None
                   then (let (r, s) = init_gridlines env self
                         in s\<lparr>ca_gridlines_major := Some r\<rparr>)
                   else self)
      in case ca_gridlines_major self1 of
           None \<Rightarrow> (self1, Some AttributeError)
         | Some r \<Rightarrow>
             (case update_gridlines env (ca_latmax self1) (ca_gridliners self1 ! r) Major
                     (ma_longrid args) (ma_latgrid args) of
                (gl, Some e) \<Rightarrow>
                  (self1\<lparr>ca_gridliners := (ca_gridliners self1)[r := gl]\<rparr>, Some e)
              | (gl, None) \<Rightarrow>
                  (case major_gridline_labels env (ca_map_projection self1) args gl of
                     ((gl', ws), err) \<Rightarrow>
                       (self1\<lparr>ca_gridliners := (ca_gridliners self1)[r := gl'],
                               ca_warnings := ca_warnings self1 @ ws\<rparr>, err))))"

definition update_minor_gridlines ::
  "gridline_env \<Rightarrow> pyval \<Rightarrow> pyval \<Rightarrow> cartopy_axes \<Rightarrow> cartopy_axes \<times> error option" where
  "update_minor_gridlines env longrid latgrid self =
     (let self1 = (if ca_gridlines_minor self = None
                   then (let (r, s) = init_gridlines env self
                         in s\<lparr>ca_gridlines_minor := Some r\<rparr>)
                   else self)
      in case ca_gridlines_minor self1 of
           None \<Rightarrow> (self1, Some AttributeError)
         | Some r \<Rightarrow>
             (case update_gridlines env (ca_latmax self1) (ca_gridliners self1 ! r) Minor
                     longrid latgrid of
                (gl, err) \<Rightarrow>
                  (self1\<lparr>ca_gridliners := (ca_gridliners self1)[r := gl]\<rparr>, err)))"

subsection \<open>The gridline updates of \<^verbatim>\<open>format\<close>\<close>

text \<open>
  Lines 459-465 of \<^verbatim>\<open>GeoAxes.format\<close> on a \<^verbatim>\<open>CartopyAxes\<close>: the major gridlines, then
  the minor ones unless the first call has raised.
\<close>

record format_call =
  fc_env :: gridline_env
  fc_major :: major_args
  fc_longridminor :: pyval
  fc_latgridminor :: pyval

definition format_gridlines :: "format_call \<Rightarrow> cartopy_axes \<Rightarrow> cartopy_axes \<times> error option" where
  "format_gridlines c self =
     (case update_major_gridlines (fc_env c) (fc_major c) self of
        (s, Some e) \<Rightarrow> (s, Some e)
      | (s, None) \<Rightarrow> update_minor_gridlines (fc_env c) (fc_longridminor c) (fc_latgridminor c) s)"

text \<open>
  A sequence of \<^verbatim>\<open>format\<close> calls on one axes; a call that raises leaves the axes as it
  was at the exception, and the next call goes on from there.
\<close>

definition repeated_format :: "format_call list \<Rightarrow> cartopy_axes \<Rightarrow> cartopy_axes" where
  "repeated_format calls self = fold (\<lambda>c s. fst (format_gridlines c s)) calls self"

text \<open>
  The gridliners that exist are the cached ones: each of the two attributes that is set
  accounts for one gridliner that \<^verbatim>\<open>self.gridlines()\<close> has created.
\<close>

definition gridlines_inv :: "cartopy_axes \<Rightarrow> bool" where
  "gridlines_inv s \<longleftrightarrow>
     length (ca_gridliners s) =
       (if ca_gridlines_major s = None then 0 else 1) +
       (if ca_gridlines_minor s = None then 0 else 1)"


section \<open>\<^verbatim>\<open>GeoAxes.format\<close>\<close>

subsection \<open>Keyword arguments\<close>

text \<open>
  The keyword-only parameters that the signature of \<^verbatim>\<open>format\<close> declares (lines 221-235);
  every other keyword of a call goes to \<^verbatim>\<open>**kwargs\<close>.
\<close>

definition format_declared :: "string list" where
  "format_declared =
     [''lonlim'', ''latlim'', ''boundinglat'',
      ''longrid'', ''latgrid'', ''longridminor'', ''latgridminor'',
      ''lonlocator'', ''lonlines'', ''latlocator'', ''latlines'', ''latmax'',
      ''lonminorlocator'', ''lonminorlines'', ''latminorlocator'', ''latminorlines'',
      ''lonlocator_kw'', ''lonlines_kw'', ''latlocator_kw'', ''latlines_kw'',
      ''lonminorlocator_kw'', ''lonminorlines_kw'', ''latminorlocator_kw'', ''latminorlines_kw'',
      ''lonformatter'', ''latformatter'', ''lonformatter_kw'', ''latformatter_kw'',
      ''labels'', ''latlabels'', ''lonlabels'',
      ''loninline'', ''latinline'', ''rotate_labels'', ''labelpad'', ''dms'',
      ''patch_kw'']"

text \<open>The value of a declared parameter in a call: its default is \<^verbatim>\<open>None\<close>.\<close>

definition format_arg :: "kwargs \<Rightarrow> string \<Rightarrow> pyval" where
  "format_arg call_kwargs name =
     (case map_of call_kwargs name of None \<Rightarrow> PyNone | Some v \<Rightarrow> v)"

definition format_kwargs :: "kwargs \<Rightarrow> kwargs" where
  "format_kwargs call_kwargs = filter (\<lambda>(k, v). k \<notin> set format_declared) call_kwargs"

text \<open>
  Modelled from the spec: \<^verbatim>\<open>_not_none\<close> of \<^verbatim>\<open>proplot.internals\<close>, which is not part of
  this file, normalizes an option: it is the first of its arguments that is not \<^verbatim>\<open>None\<close>,
  or the default.
\<close>

fun not_none :: "pyval list \<Rightarrow> pyval \<Rightarrow> pyval" where
  "not_none [] dflt = dflt"
| "not_none (a # rest) dflt = (if a \<noteq> PyNone then a else not_none rest dflt)"

text \<open>\<^verbatim>\<open>x or {}\<close> keeps a true \<^verbatim>\<open>x\<close>.\<close>

definition or_empty_dict :: "pyval \<Rightarrow> pyval" where
  "or_empty_dict x = (if py_truthy x then x else PyDict [])"

subsection \<open>\<^verbatim>\<open>_parse_format\<close>\<close>

text \<open>
  Modelled from the spec: \<^verbatim>\<open>_parse_format(mode=2, rc_kw=None, **kwargs)\<close> of the parent
  class (\<^verbatim>\<open>proplot/axes/base.py\<close>, which is not part of this file) produces the context
  of \<^verbatim>\<open>rc\<close>: it separates the keywords that name a setting of \<^verbatim>\<open>rc\<close> from the
  keywords for \<^verbatim>\<open>Axes.format\<close>. The docstring of \<^verbatim>\<open>format\<close> says so at lines 239-240
  and 347-355, where \<^verbatim>\<open>land\<close> is the setting \<^verbatim>\<open>land\<close> and \<^verbatim>\<open>landcolor\<close> is the
  setting \<^verbatim>\<open>land.color\<close>. The table of the setting names without their dots is a
  parameter, \<open>rc_nodots\<close>. A setting is stored with \<^verbatim>\<open>rc_kw[key_fixed] = value\<close>, which
  is a \<^verbatim>\<open>TypeError\<close> when a true \<^verbatim>\<open>rc_kw\<close> that is no dictionary was passed.
\<close>

fun parse_format_loop ::
  "(string \<Rightarrow> string option) \<Rightarrow> kwargs \<Rightarrow> pyval \<Rightarrow> kwargs \<Rightarrow> error + (pyval \<times> kwargs)" where
  "parse_format_loop rc_nodots [] rc_kw kw = Inr (rc_kw, kw)"
| "parse_format_loop rc_nodots ((key, v) # rest) rc_kw kw =
     (case rc_nodots key of
        None \<Rightarrow> parse_format_loop rc_nodots rest rc_kw (dict_set kw key v)
      | Some key_fixed \<Rightarrow>
          (case rc_kw of
             PyDict d \<Rightarrow> parse_format_loop rc_nodots rest (PyDict (dict_set d key_fixed v)) kw
           | _ \<Rightarrow> Inl TypeError))"

definition parse_format ::
  "(string \<Rightarrow> string option) \<Rightarrow> kwargs \<Rightarrow> error + (pyval \<times> pyval \<times> kwargs)" where
  "parse_format rc_nodots kwargs =
     (let mode = (case map_of kwargs ''mode'' of None \<Rightarrow> PyInt 2 | Some m \<Rightarrow> m);
          rc_kw = (case map_of kwargs ''rc_kw'' of None \<Rightarrow> PyNone | Some r \<Rightarrow> r);
          rc_kw = or_empty_dict rc_kw;
          rest = filter (\<lambda>(k, v). k \<noteq> ''mode'' \<and> k \<noteq> ''rc_kw'') kwargs
      in case parse_format_loop rc_nodots rest rc_kw [] of
           Inl e \<Rightarrow> Inl e
         | Inr (rc_kw, kw) \<Rightarrow> Inr (rc_kw, mode, kw))"

subsection \<open>Calls that leave the method\<close>

text \<open>
  What \<^verbatim>\<open>format\<close> does beyond computing values is a sequence of calls: entering the
  context of \<^verbatim>\<open>rc\<close>, setters of the two dummy axes (with the locator or formatter that
  \<^verbatim>\<open>proplot.constructor\<close> builds), the worker methods of the subclass, which apply the
  geographic settings, and the parent's \<^verbatim>\<open>format\<close>.
\<close>

datatype call =
    RcContext pyval pyval
  | SetLatmax pyval
  | SetMajorLocator string pyval pyval
  | SetMinorLocator string pyval pyval
  | SetMajorFormatter string pyval pyval
  | SetDms pyval
  | UpdateExtent pyval pyval pyval
  | UpdatePatches pyval
  | UpdateFeatures
  | UpdateMajorGridlines pyval pyval "pyval list" "pyval list" pyval pyval pyval pyval
  | UpdateMinorGridlines pyval pyval
  | SuperFormat kwargs

fun is_setter :: "call \<Rightarrow> bool" where
  "is_setter (SetLatmax v) = True"
| "is_setter (SetMajorLocator a l kw) = True"
| "is_setter (SetMinorLocator a l kw) = True"
| "is_setter (SetMajorFormatter a f kw) = True"
| "is_setter (SetDms v) = True"
| "is_setter c = False"

text \<open>
  The parts of a call that are not in this file: the table of the names of the settings of
  \<^verbatim>\<open>rc\<close>; \<^verbatim>\<open>rc.get(key, context=True)\<close> inside the context; \<^verbatim>\<open>np.atleast_1d\<close>; and
  the outcome of each call, which is an exception or a normal return.
\<close>

record format_env =
  fe_rc_nodots :: "string \<Rightarrow> string option"
  fe_rc :: "string \<Rightarrow> pyval"
  fe_atleast_1d :: "pyval \<Rightarrow> pyval list"
  fe_extern :: "call \<Rightarrow> error option"

type_synonym step = "call list \<Rightarrow> error + call list"

definition do_call :: "(call \<Rightarrow> error option) \<Rightarrow> call \<Rightarrow> step" where
  "do_call ext c tr = (case ext c of Some e \<Rightarrow> Inl e | None \<Rightarrow> Inr (tr @ [c]))"

definition call_if :: "bool \<Rightarrow> (call \<Rightarrow> error option) \<Rightarrow> call \<Rightarrow> step" where
  "call_if b ext c tr = (if b then do_call ext c tr else Inr tr)"

fun steps :: "step list \<Rightarrow> step" where
  "steps [] tr = Inr tr"
| "steps (f # fs) tr = (case f tr of Inl e \<Rightarrow> Inl e | Inr tr' \<Rightarrow> steps fs tr')"

subsection \<open>The body of \<^verbatim>\<open>format\<close>\<close>

text \<open>
  \<^verbatim>\<open>_not_none(x, rc.get(key, context=True))\<close>: an argument, or else the setting of the
  context.
\<close>

definition format_option :: "format_env \<Rightarrow> kwargs \<Rightarrow> string \<Rightarrow> string \<Rightarrow> pyval" where
  "format_option env ckw name key = not_none [format_arg ckw name, fe_rc env key] PyNone"

text \<open>\<^verbatim>\<open>_not_none(lonlocator=lonlocator, lonlines=lonlines)\<close>: an argument or its alias.\<close>

definition format_alias :: "kwargs \<Rightarrow> string \<Rightarrow> string \<Rightarrow> pyval \<Rightarrow> pyval" where
  "format_alias ckw name alias dflt = not_none [format_arg ckw name, format_arg ckw alias] dflt"

text \<open>Lines 383-385: the label specifications that go to \<^verbatim>\<open>_to_label_array\<close>.\<close>

definition format_lonlabels :: "format_env \<Rightarrow> kwargs \<Rightarrow> pyval" where
  "format_lonlabels env ckw =
     not_none [format_arg ckw ''lonlabels'', format_option env ckw ''labels'' ''grid.labels'']
       PyNone"

definition format_latlabels :: "format_env \<Rightarrow> kwargs \<Rightarrow> pyval" where
  "format_latlabels env ckw =
     not_none [format_arg ckw ''latlabels'', format_option env ckw ''labels'' ''grid.labels'']
       PyNone"

text \<open>Lines 389-453: the latitude bound, the locators and the formatters of the dummy axes.\<close>

definition format_setters :: "format_env \<Rightarrow> kwargs \<Rightarrow> step list" where
  "format_setters env ckw =
     (let arg = format_arg ckw; ext = fe_extern env;
          latmax = format_option env ckw ''latmax'' ''grid.latmax'';
          lonlocator = format_alias ckw ''lonlocator'' ''lonlines'' PyNone;
          latlocator = format_alias ckw ''latlocator'' ''latlines'' PyNone;
          lonminorlocator = format_alias ckw ''lonminorlocator'' ''lonminorlines'' PyNone;
          latminorlocator = format_alias ckw ''latminorlocator'' ''latminorlines'' PyNone
      in [call_if (latmax \<noteq> PyNone) ext (SetLatmax latmax),
          call_if (lonlocator \<noteq> PyNone) ext
            (SetMajorLocator ''lon'' lonlocator
               (format_alias ckw ''lonlocator_kw'' ''lonlines_kw'' (PyDict []))),
          call_if (latlocator \<noteq> PyNone) ext
            (SetMajorLocator ''lat'' latlocator
               (format_alias ckw ''latlocator_kw'' ''latlines_kw'' (PyDict []))),
          call_if (lonminorlocator \<noteq> PyNone) ext
            (SetMinorLocator ''lon'' lonminorlocator
               (format_alias ckw ''lonminorlocator_kw'' ''lonminorlines_kw'' (PyDict []))),
          call_if (latminorlocator \<noteq> PyNone) ext
            (SetMinorLocator ''lat'' latminorlocator
               (format_alias ckw ''latminorlocator_kw'' ''latminorlines_kw'' (PyDict []))),
          call_if (arg ''lonformatter'' \<noteq> PyNone) ext
            (SetMajorFormatter ''lon'' (arg ''lonformatter'')
               (or_empty_dict (arg ''lonformatter_kw''))),
          call_if (arg ''latformatter'' \<noteq> PyNone) ext
            (SetMajorFormatter ''lat'' (arg ''latformatter'')
               (or_empty_dict (arg ''latformatter_kw''))),
          call_if (arg ''dms'' \<noteq> PyNone) ext (SetDms (arg ''dms''))])"

text \<open>
  Lines 455-465: the worker methods, which apply the geographic settings, in the order of
  their calls.
\<close>

definition format_workers :: "format_env \<Rightarrow> kwargs \<Rightarrow> pyval list \<Rightarrow> pyval list \<Rightarrow> call list" where
  "format_workers env ckw lonarray latarray =
     [UpdateExtent (format_arg ckw ''lonlim'') (format_arg ckw ''latlim'')
        (format_arg ckw ''boundinglat''),
      UpdatePatches (or_empty_dict (format_arg ckw ''patch_kw'')),
      UpdateFeatures,
      UpdateMajorGridlines
        (format_option env ckw ''longrid'' ''grid'') (format_option env ckw ''latgrid'' ''grid'')
        lonarray latarray
        (format_option env ckw ''loninline'' ''grid.loninline'')
        (format_option env ckw ''latinline'' ''grid.latinline'')
        (format_option env ckw ''rotate_labels'' ''grid.rotatelabels'')
        (format_option env ckw ''labelpad'' ''grid.labelpad''),
      UpdateMinorGridlines
        (format_option env ckw ''longridminor'' ''gridminor'')
        (format_option env ckw ''latgridminor'' ''gridminor'')]"

text \<open>
  Lines 372-468. The result is the sequence of the calls made inside the \<^verbatim>\<open>with\<close> block,
  or the exception that leaves it.
\<close>

definition format :: "format_env \<Rightarrow> kwargs \<Rightarrow> error + call list" where
  "format env ckw =
     (case parse_format (fe_rc_nodots env) (format_kwargs ckw) of
        Inl e \<Rightarrow> Inl e
      | Inr (rc_kw, rc_mode, kwargs) \<Rightarrow>
     (case do_call (fe_extern env) (RcContext rc_kw rc_mode) [] of
        Inl e \<Rightarrow> Inl e
      | Inr tr \<Rightarrow>
     (case to_label_array (format_lonlabels env ckw)
             (fe_atleast_1d env (format_lonlabels env ckw)) True of
        Inl e \<Rightarrow> Inl e
      | Inr lonarray \<Rightarrow>
     (case to_label_array (format_latlabels env ckw)
             (fe_atleast_1d env (format_latlabels env ckw)) False of
        Inl e \<Rightarrow> Inl e
      | Inr latarray \<Rightarrow>
     (case steps (format_setters env ckw @
                  map (do_call (fe_extern env)) (format_workers env ckw lonarray latarray)) tr of
        Inl e \<Rightarrow> Inl e
      | Inr tr' \<Rightarrow> do_call (fe_extern env) (SuperFormat kwargs) tr')))))"

section \<open>Properties\<close>

subsection \<open>Rounding to a double\<close>

lemma round_half_even_error: "\<bar>of_int (round_half_even x) - x\<bar> \<le> 1 / 2"
proof -
  have "of_int \<lfloor>x\<rfloor> \<le> x" "x < of_int \<lfloor>x\<rfloor> + 1" by linarith+
  then show ?thesis
    by (auto simp: round_half_even_def Let_def)
qed

lemma binary_exponent_bounds:
  assumes "0 < x"
  shows "2 powi (binary_exponent x) \<le> x" and "x < 2 powi (binary_exponent x + 1)"
proof -
  have "2 powi (binary_exponent x) \<le> x \<and> x < 2 powi (binary_exponent x + 1)"
  proof (cases "1 \<le> x")
    case True
    define n where "n = \<lfloor>x\<rfloor>"
    have n: "0 < n" "of_int n \<le> x" "x < of_int n + 1" using True by (auto simp: n_def)
    define k where "k = nat (bitlen n - 1)"
    have bl: "bitlen n = int k + 1"
      using n(1) bitlen_bounds[of n] bitlen_eq_zero_iff[of n] bitlen_nonneg[of n]
      by (simp add: k_def)
    have nk: "nat (bitlen n) = k + 1" "nat (bitlen n - 1) = k" using bl by simp_all
    from bitlen_bounds[OF n(1)] have b: "2 ^ k \<le> n" "n < 2 ^ (k + 1)"
      unfolding nk by simp_all
    have e: "binary_exponent x = int k"
      using True by (simp add: binary_exponent_def n_def[symmetric] bl)
    have "(2::real) ^ k \<le> of_int n" using b(1) by (metis of_int_le_iff of_int_numeral of_int_power)
    moreover have "of_int n + 1 \<le> (2::real) ^ (k + 1)"
    proof -
      have "n + 1 \<le> 2 ^ (k + 1)" using b(2) by simp
      then have "of_int (n + 1) \<le> (of_int (2 ^ (k + 1)) :: real)" by (simp only: of_int_le_iff)
      then show ?thesis by simp
    qed
    ultimately have "(2::real) ^ k \<le> x" "x < (2::real) ^ (k + 1)" using n by linarith+
    moreover have "(2::real) powi (int k + 1) = 2 ^ (k + 1)"
      by (simp add: power_int_add)
    ultimately show ?thesis unfolding e by simp
  next
    case False
    with assms have x: "0 < x" "x < 1" by simp_all
    define n where "n = \<lceil>1 / x\<rceil> - 1"
    have "1 < 1 / x" using x by simp
    then have n: "0 < n" "of_int n < 1 / x" "1 / x \<le> of_int n + 1"
      by (auto simp: n_def) linarith+
    define k where "k = nat (bitlen n - 1)"
    have bl: "bitlen n = int k + 1"
      using n(1) bitlen_bounds[of n] bitlen_eq_zero_iff[of n] bitlen_nonneg[of n]
      by (simp add: k_def)
    have nk: "nat (bitlen n) = k + 1" "nat (bitlen n - 1) = k" using bl by simp_all
    from bitlen_bounds[OF n(1)] have b: "2 ^ k \<le> n" "n < 2 ^ (k + 1)"
      unfolding nk by simp_all
    have e: "binary_exponent x = - (int k + 1)"
      using False by (simp add: binary_exponent_def n_def[symmetric] bl)
    have "(2::real) ^ k \<le> of_int n" using b(1) by (metis of_int_le_iff of_int_numeral of_int_power)
    with n(2) have up: "(2::real) ^ k < 1 / x" by linarith
    have "of_int n + 1 \<le> (2::real) ^ (k + 1)"
    proof -
      have "n + 1 \<le> 2 ^ (k + 1)" using b(2) by simp
      then have "of_int (n + 1) \<le> (of_int (2 ^ (k + 1)) :: real)" by (simp only: of_int_le_iff)
      then show ?thesis by simp
    qed
    with n(3) have lo: "1 / x \<le> (2::real) ^ (k + 1)" by linarith
    have p: "(0::real) < 2 ^ k" "(0::real) < 2 ^ (k + 1)" by simp_all
    have "1 / (2::real) ^ (k + 1) \<le> x"
      using lo x(1) p(2) by (simp add: field_simps)
    moreover have "x < 1 / (2::real) ^ k"
      using up x(1) p(1) by (simp add: field_simps)
    moreover have "(2::real) powi (- (int k + 1)) = 1 / 2 ^ (k + 1)"
    proof -
      have "- (int k + 1) = - int (k + 1)" by simp
      then have "(2::real) powi (- (int k + 1)) = 2 powi (- int (k + 1))" by (rule arg_cong)
      also have "\<dots> = 1 / 2 powi int (k + 1)" by (rule power_int_minus_divide)
      also have "\<dots> = 1 / 2 ^ (k + 1)" by (simp only: power_int_of_nat)
      finally show ?thesis .
    qed
    moreover have "(2::real) powi (- (int k + 1) + 1) = 1 / 2 ^ k"
    proof -
      have "- (int k + 1) + 1 = - int k" by simp
      then have "(2::real) powi (- (int k + 1) + 1) = 2 powi (- int k)" by (rule arg_cong)
      also have "\<dots> = 1 / 2 powi int k" by (rule power_int_minus_divide)
      also have "\<dots> = 1 / 2 ^ k" by (simp only: power_int_of_nat)
      finally show ?thesis .
    qed
    ultimately show ?thesis unfolding e by simp
  qed
  then show "2 powi (binary_exponent x) \<le> x" and "x < 2 powi (binary_exponent x + 1)"
    by simp_all
qed

lemma binary_exponent_unique:
  assumes "2 powi e \<le> x" "x < 2 powi (e + 1)"
  shows "binary_exponent x = e"
proof -
  have "(0::real) < 2 powi e" by (simp add: zero_less_power_int)
  with assms have pos: "0 < x" by linarith
  let ?b = "binary_exponent x"
  note bb = binary_exponent_bounds[OF pos]
  have "\<not> ?b < e"
  proof
    assume "?b < e"
    then have "(2::real) powi (?b + 1) \<le> 2 powi e" by (intro power_int_increasing) simp_all
    with bb(2) assms(1) show False by linarith
  qed
  moreover have "\<not> e < ?b"
  proof
    assume "e < ?b"
    then have "(2::real) powi (e + 1) \<le> 2 powi ?b" by (intro power_int_increasing) simp_all
    with bb(1) assms(2) show False by linarith
  qed
  ultimately show ?thesis by simp
qed

lemma round_double_eqI:
  assumes "2 powi e \<le> \<bar>x\<bar>" "\<bar>x\<bar> < 2 powi (e + 1)"
    and "round_half_even (x / 2 powi (e - 52)) = m"
  shows "round_double x = of_int m * 2 powi (e - 52)"
proof -
  have "(0::real) < 2 powi e" by (simp add: zero_less_power_int)
  with assms(1) have "0 < \<bar>x\<bar>" by linarith
  then have "x \<noteq> 0" by simp
  moreover have "binary_exponent \<bar>x\<bar> = e" using assms(1,2) by (rule binary_exponent_unique)
  ultimately show ?thesis using assms(3) by (simp add: round_double_def Let_def)
qed

lemma round_double_error: "\<bar>round_double x - x\<bar> \<le> \<bar>x\<bar> / 2 ^ 53"
proof (cases "x = 0")
  case True
  then show ?thesis by (simp add: round_double_def)
next
  case False
  define e where "e = binary_exponent \<bar>x\<bar>"
  define s :: real where "s = 2 powi (e - 52)"
  have s: "0 < s" by (simp add: s_def zero_less_power_int)
  have lo: "2 powi e \<le> \<bar>x\<bar>" using False binary_exponent_bounds(1)[of "\<bar>x\<bar>"] by (simp add: e_def)
  have r: "round_double x = of_int (round_half_even (x / s)) * s"
    using False by (simp add: round_double_def Let_def s_def e_def)
  have "\<bar>of_int (round_half_even (x / s)) - x / s\<bar> \<le> 1 / 2" by (rule round_half_even_error)
  then have "\<bar>of_int (round_half_even (x / s)) - x / s\<bar> * s \<le> 1 / 2 * s"
    using s by (intro mult_right_mono) simp_all
  moreover have "\<bar>of_int (round_half_even (x / s)) - x / s\<bar> * s
      = \<bar>of_int (round_half_even (x / s)) * s - x\<bar>"
  proof -
    have "\<bar>of_int (round_half_even (x / s)) - x / s\<bar> * s
        = \<bar>(of_int (round_half_even (x / s)) - x / s) * s\<bar>"
      using s by (simp add: abs_mult)
    also have "(of_int (round_half_even (x / s)) - x / s) * s
        = of_int (round_half_even (x / s)) * s - x"
      using s by (simp add: field_simps)
    finally show ?thesis .
  qed
  ultimately have "\<bar>round_double x - x\<bar> \<le> s / 2" by (simp add: r)
  moreover have "s = 2 powi e / 2 ^ 52"
    by (simp add: s_def power_int_diff)
  ultimately have "\<bar>round_double x - x\<bar> \<le> 2 powi e / 2 ^ 53" by simp
  also have "\<dots> \<le> \<bar>x\<bar> / 2 ^ 53" using lo by (simp add: divide_right_mono)
  finally show ?thesis .
qed

subsection \<open>Longitude ticks\<close>

lemma lon_eps_value: "lon_eps = 4835703278458517 / 2 ^ 83"
  unfolding lon_eps_def
  by (rule trans[OF round_double_eqI[where e = "- 31" and m = 4835703278458517]])
     (simp_all add: power_int_minus_divide round_half_even_def Let_def)

lemma not_looped_span:
  assumes "\<not> LonAxis_looped ticks"
  shows "last ticks - hd ticks
           \<le> 360 + 2 * (5 / 10 ^ 10) + (\<bar>hd ticks\<bar> + \<bar>last ticks\<bar> + 361) / 2 ^ 51"
proof -
  define h where "h = hd ticks"
  define l where "l = last ticks"
  define A where "A = round_double (h + 360)"
  define B where "B = round_double (A + lon_eps)"
  define C where "C = round_double (l - lon_eps)"
  have e: "0 \<le> lon_eps" "lon_eps \<le> 1" by (simp_all add: lon_eps_value)
  have e2: "2 * lon_eps \<le> 2 * (5 / 10 ^ 10) + 1 / 2 ^ 51" by (simp add: lon_eps_value)
  have cb: "C \<le> B" using assms by (simp add: LonAxis_looped_def A_def B_def C_def h_def l_def)
  have a: "\<bar>A - (h + 360)\<bar> \<le> \<bar>h + 360\<bar> / 2 ^ 53" unfolding A_def by (rule round_double_error)
  have b: "\<bar>B - (A + lon_eps)\<bar> \<le> \<bar>A + lon_eps\<bar> / 2 ^ 53"
    unfolding B_def by (rule round_double_error)
  have c: "\<bar>C - (l - lon_eps)\<bar> \<le> \<bar>l - lon_eps\<bar> / 2 ^ 53"
    unfolding C_def by (rule round_double_error)
  define X where "X = \<bar>h\<bar> + 360"
  have x: "\<bar>h + 360\<bar> \<le> X" by (simp add: X_def)
  have X0: "0 \<le> X" by (simp add: X_def)
  from a x have a': "\<bar>A - (h + 360)\<bar> \<le> X / 2 ^ 53"
    by (meson divide_right_mono order_trans zero_le_numeral zero_le_power)
  then have A1: "A \<le> h + 360 + X / 2 ^ 53" and A2: "\<bar>A\<bar> \<le> X + X / 2 ^ 53"
    using x by linarith+
  have "\<bar>A + lon_eps\<bar> \<le> X + X / 2 ^ 53 + lon_eps" using A2 e(1) by linarith
  also have "\<dots> \<le> 2 * X + 1" using X0 e(2) by simp
  finally have y: "\<bar>A + lon_eps\<bar> \<le> 2 * X + 1" .
  from b y have b': "\<bar>B - (A + lon_eps)\<bar> \<le> (2 * X + 1) / 2 ^ 53"
    by (meson divide_right_mono order_trans zero_le_numeral zero_le_power)
  have z: "\<bar>l - lon_eps\<bar> \<le> \<bar>l\<bar> + 1" using e by linarith
  from c z have c': "\<bar>C - (l - lon_eps)\<bar> \<le> (\<bar>l\<bar> + 1) / 2 ^ 53"
    by (meson divide_right_mono order_trans zero_le_numeral zero_le_power)
  have "l - lon_eps - (\<bar>l\<bar> + 1) / 2 ^ 53 \<le> C" using c' by linarith
  also note cb
  also have "B \<le> A + lon_eps + (2 * X + 1) / 2 ^ 53" using b' by linarith
  also have "\<dots> \<le> h + 360 + X / 2 ^ 53 + lon_eps + (2 * X + 1) / 2 ^ 53" using A1 by simp
  finally have "l - h \<le> 360 + 2 * lon_eps + (3 * X + \<bar>l\<bar> + 2) / 2 ^ 53"
    by (simp add: field_simps)
  also have "\<dots> \<le> 360 + 2 * (5 / 10 ^ 10) + 1 / 2 ^ 51 + (3 * X + \<bar>l\<bar> + 2) / 2 ^ 53"
    using e2 by simp
  also have "\<dots> \<le> 360 + 2 * (5 / 10 ^ 10) + (\<bar>h\<bar> + \<bar>l\<bar> + 361) / 2 ^ 51"
    by (simp add: X_def field_simps)
  finally show ?thesis by (simp add: h_def l_def)
qed

declare LonAxis_cut_looped.simps [simp del]

lemma cut_looped_step:
  "ticks \<noteq> [] \<and> LonAxis_looped ticks \<Longrightarrow>
   LonAxis_cut_looped ticks = LonAxis_cut_looped (butlast ticks)"
  by (subst LonAxis_cut_looped.simps, rule if_P)

lemma cut_looped_stop:
  "\<not> (ticks \<noteq> [] \<and> LonAxis_looped ticks) \<Longrightarrow>
   LonAxis_cut_looped ticks = ticks"
  by (subst LonAxis_cut_looped.simps, rule if_not_P)

lemma cut_looped_prefix: "\<exists>k\<le>length xs. LonAxis_cut_looped xs = take k xs"
proof (induction xs rule: LonAxis_cut_looped.induct)
  case (1 ticks)
  show ?case
  proof (cases "ticks \<noteq> [] \<and> LonAxis_looped ticks")
    case True
    with 1 obtain k where k: "k \<le> length (butlast ticks)"
      "LonAxis_cut_looped (butlast ticks) = take k (butlast ticks)" by blast
    have "0 < length ticks" using True by (cases ticks) simp_all
    moreover have "k \<le> length ticks - 1" using k(1) by (simp only: length_butlast)
    ultimately have "k < length ticks" by linarith
    then have "take k (butlast ticks) = take k ticks"
      by (rule take_butlast)
    moreover have "LonAxis_cut_looped ticks = LonAxis_cut_looped (butlast ticks)"
      using True by (rule cut_looped_step)
    ultimately show ?thesis using k by (intro exI[of _ k]) simp
  next
    case False
    then have "LonAxis_cut_looped ticks = take (length ticks) ticks" by (simp add: cut_looped_stop)
    then show ?thesis by blast
  qed
qed

lemma cut_looped_length: "LonAxis_cut_looped xs = take (length (LonAxis_cut_looped xs)) xs"
proof -
  obtain k where "k \<le> length xs" "LonAxis_cut_looped xs = take k xs"
    using cut_looped_prefix by blast
  then show ?thesis by simp
qed

lemma cut_looped_stops:
  "LonAxis_cut_looped xs = [] \<or>
   \<not> LonAxis_looped (LonAxis_cut_looped xs)"
proof (induction xs rule: LonAxis_cut_looped.induct)
  case (1 ticks)
  show ?case
  proof (cases "ticks \<noteq> [] \<and> LonAxis_looped ticks")
    case True
    then have "LonAxis_cut_looped ticks = LonAxis_cut_looped (butlast ticks)" by (rule cut_looped_step)
    with 1 True show ?thesis by simp
  next
    case False
    then have "LonAxis_cut_looped ticks = ticks" by (rule cut_looped_stop)
    with False show ?thesis by auto
  qed
qed

lemma cut_looped_first_stop:
  "length (LonAxis_cut_looped xs) < j \<Longrightarrow> j \<le> length xs \<Longrightarrow>
   LonAxis_looped (take j xs)"
proof (induction xs rule: LonAxis_cut_looped.induct)
  case (1 ticks)
  show ?case
  proof (cases "ticks \<noteq> [] \<and> LonAxis_looped ticks")
    case True
    then have eq: "LonAxis_cut_looped ticks = LonAxis_cut_looped (butlast ticks)" by (rule cut_looped_step)
    show ?thesis
    proof (cases "j = length ticks")
      case True
      with \<open>ticks \<noteq> [] \<and> _\<close> show ?thesis by simp
    next
      case False
      with "1.prems" have j: "j \<le> length (butlast ticks)" by simp
      have "0 < length ticks" using True by (cases ticks) simp_all
      moreover have "j \<le> length ticks - 1" using j by (simp only: length_butlast)
      ultimately have "j < length ticks" by linarith
      then have "take j (butlast ticks) = take j ticks"
        by (rule take_butlast)
      with "1.IH"[OF True] "1.prems"(1) eq j show ?thesis by simp
    qed
  next
    case False
    then have "LonAxis_cut_looped ticks = ticks" by (rule cut_looped_stop)
    with "1.prems" show ?thesis by simp
  qed
qed

text \<open>
  Claim C10, amended. \<^verbatim>\<open>_LonAxis._constrain_ticks\<close> returns a prefix of the sorted input
  (the sorted input without some of its largest elements), and the result is sorted. The
  loop stops as soon as the list is empty or the test
  \<^verbatim>\<open>ticks[-1] - eps > ticks[0] + 360 + eps\<close>, as double-precision arithmetic evaluates
  it, is false: every longer prefix of the sorted input is not empty and passes the test.
  So the last element of a result that is not empty exceeds the first by at most
  \<open>360 + 2 * 5e-10\<close> and the rounding error of the test, which is at most
  \<open>(\<bar>first\<bar> + \<bar>last\<bar> + 361) / 2 ^ 51\<close>.
\<close>

theorem LonAxis_constrain_ticks_spec:
  "LonAxis_constrain_ticks ticks =
     take (length (LonAxis_constrain_ticks ticks)) (sort ticks)
   \<and> sorted (LonAxis_constrain_ticks ticks)
   \<and> (LonAxis_constrain_ticks ticks = [] \<or> \<not> LonAxis_looped (LonAxis_constrain_ticks ticks))
   \<and> (LonAxis_constrain_ticks ticks = [] \<or>
      last (LonAxis_constrain_ticks ticks) - hd (LonAxis_constrain_ticks ticks)
        \<le> 360 + 2 * (5 / 10 ^ 10)
            + (\<bar>hd (LonAxis_constrain_ticks ticks)\<bar>
               + \<bar>last (LonAxis_constrain_ticks ticks)\<bar> + 361) / 2 ^ 51)
   \<and> (\<forall>j. length (LonAxis_constrain_ticks ticks) < j \<and> j \<le> length ticks \<longrightarrow>
        take j (sort ticks) \<noteq> [] \<and> LonAxis_looped (take j (sort ticks)))"
proof -
  let ?r = "LonAxis_constrain_ticks ticks"
  have a: "?r = take (length ?r) (sort ticks)"
    unfolding LonAxis_constrain_ticks_def by (rule cut_looped_length)
  have b: "sorted ?r"
    by (subst a) (simp add: sorted_wrt_take)
  have c: "?r = [] \<or> \<not> LonAxis_looped ?r"
    using cut_looped_stops[of "sort ticks"] unfolding LonAxis_constrain_ticks_def .
  have c': "?r = [] \<or> last ?r - hd ?r
        \<le> 360 + 2 * (5 / 10 ^ 10) + (\<bar>hd ?r\<bar> + \<bar>last ?r\<bar> + 361) / 2 ^ 51"
    using c not_looped_span[of ?r] by blast
  have d: "take j (sort ticks) \<noteq> [] \<and> LonAxis_looped (take j (sort ticks))"
    if "length ?r < j" "j \<le> length ticks" for j
  proof -
    have "LonAxis_looped (take j (sort ticks))"
      using cut_looped_first_stop[of "sort ticks" j] that
      unfolding LonAxis_constrain_ticks_def by simp
    moreover have len: "length (take j (sort ticks)) = j" using that by simp
    have "take j (sort ticks) \<noteq> []"
    proof
      assume "take j (sort ticks) = []"
      then have "length (take j (sort ticks)) = 0" by (simp only: list.size)
      with len that show False by linarith
    qed
    ultimately show ?thesis by simp
  qed
  from a b c c' d show ?thesis by blast
qed

lemma round_double_near:
  assumes "\<bar>x\<bar> \<le> 1000"
  shows "\<bar>round_double x - x\<bar> \<le> 1"
proof -
  have "\<bar>round_double x - x\<bar> \<le> \<bar>x\<bar> / 2 ^ 53" by (rule round_double_error)
  also have "\<dots> \<le> 1000 / 2 ^ 53" using assms by (intro divide_right_mono) simp_all
  also have "\<dots> \<le> 1" by simp
  finally show ?thesis .
qed

lemma looped_example: "LonAxis_looped [0, 180, 400]"
proof -
  have e: "0 \<le> lon_eps" "lon_eps \<le> 1" by (simp_all add: lon_eps_value)
  have a: "\<bar>round_double (0 + 360) - (0 + 360)\<bar> \<le> 1"
    by (rule round_double_near) simp
  then have "\<bar>round_double (0 + 360) + lon_eps\<bar> \<le> 1000" using e by linarith
  then have b: "\<bar>round_double (round_double (0 + 360) + lon_eps)
      - (round_double (0 + 360) + lon_eps)\<bar> \<le> 1"
    by (rule round_double_near)
  have "\<bar>400 - lon_eps\<bar> \<le> 1000" using e by linarith
  then have c: "\<bar>round_double (400 - lon_eps) - (400 - lon_eps)\<bar> \<le> 1"
    by (rule round_double_near)
  from a b c e
  have "round_double (400 - lon_eps) > round_double (round_double (0 + 360) + lon_eps)"
    by linarith
  then show ?thesis by (simp add: LonAxis_looped_def)
qed

lemma not_looped_example: "\<not> LonAxis_looped [0, 180]"
proof -
  have e: "0 \<le> lon_eps" "lon_eps \<le> 1" by (simp_all add: lon_eps_value)
  have a: "\<bar>round_double (0 + 360) - (0 + 360)\<bar> \<le> 1"
    by (rule round_double_near) simp
  then have "\<bar>round_double (0 + 360) + lon_eps\<bar> \<le> 1000" using e by linarith
  then have b: "\<bar>round_double (round_double (0 + 360) + lon_eps)
      - (round_double (0 + 360) + lon_eps)\<bar> \<le> 1"
    by (rule round_double_near)
  have "\<bar>180 - lon_eps\<bar> \<le> 1000" using e by linarith
  then have c: "\<bar>round_double (180 - lon_eps) - (180 - lon_eps)\<bar> \<le> 1"
    by (rule round_double_near)
  from a b c e
  have "\<not> round_double (180 - lon_eps) > round_double (round_double (0 + 360) + lon_eps)"
    by linarith
  then show ?thesis by (simp add: LonAxis_looped_def)
qed

theorem LonAxis_constrain_ticks_witness:
  "LonAxis_constrain_ticks [0, 400, 180] = [0, 180]
   \<and> length (LonAxis_constrain_ticks [0, 400, 180]) < 3 \<and> (3::nat) \<le> length [0, 400, 180::real]
   \<and> LonAxis_looped (take 3 (sort [0, 400, 180]))
   \<and> \<not> LonAxis_looped (LonAxis_constrain_ticks [0, 400, 180])"
proof -
  have s: "sort [0, 400, 180::real] = [0, 180, 400]" by simp
  have r: "LonAxis_constrain_ticks [0, 400, 180] = [0, 180]"
    unfolding LonAxis_constrain_ticks_def s
    by (subst cut_looped_step, simp add: looped_example)
       (simp add: cut_looped_stop not_looped_example)
  have h: "length (LonAxis_constrain_ticks [0, 400, 180]) < 3 \<and> (3::nat) \<le> length [0, 400, 180::real]"
    by (simp add: r)
  from LonAxis_constrain_ticks_spec[of "[0, 400, 180]"] h
  have "LonAxis_looped (take 3 (sort [0, 400, 180]))" by blast
  moreover from LonAxis_constrain_ticks_spec[of "[0, 400, 180]"] r
  have "\<not> LonAxis_looped (LonAxis_constrain_ticks [0, 400, 180])" by simp
  ultimately show ?thesis using r h by blast
qed

text \<open>
  The doubles nearest to 175.2 and to 535.200000001 differ by more than
  \<open>360 + 2 * 5e-10\<close>, and the test of line 140 on them is false in double precision:
  both sides round to the same double. The method keeps both ticks.
\<close>

lemma counterexample_sum:
  "round_double (3082150994981683 / 2 ^ 44 + 360) = 2353834492742861 / 2 ^ 42"
  by (rule trans[OF round_double_eqI[where e = 9 and m = 4707668985485722]])
     (simp_all add: round_half_even_def Let_def)

lemma counterexample_right:
  "round_double (2353834492742861 / 2 ^ 42 + lon_eps) = 588458623186265 / 2 ^ 40"
  by (rule trans[OF round_double_eqI[where e = 9 and m = 4707668985490120]])
     (simp_all add: lon_eps_value round_half_even_def Let_def)

lemma counterexample_left:
  "round_double (2353834492747259 / 2 ^ 42 - lon_eps) = 588458623186265 / 2 ^ 40"
  by (rule trans[OF round_double_eqI[where e = 9 and m = 4707668985490120]])
     (simp_all add: lon_eps_value round_half_even_def Let_def)

lemma counterexample_not_looped:
  "\<not> LonAxis_looped [3082150994981683 / 2 ^ 44, 2353834492747259 / 2 ^ 42]"
proof -
  have l: "last [3082150994981683 / 2 ^ 44, 2353834492747259 / 2 ^ 42 :: real]
             = 2353834492747259 / 2 ^ 42"
    "hd [3082150994981683 / 2 ^ 44, 2353834492747259 / 2 ^ 42 :: real]
             = 3082150994981683 / 2 ^ 44"
    by (simp_all only: last.simps list.sel if_True if_False list.distinct simp_thms)
  show ?thesis
    unfolding LonAxis_looped_def l counterexample_sum counterexample_right counterexample_left
    by simp
qed

lemma counterexample_double_a:
  "round_double (3082150994981683 / 2 ^ 44) = 3082150994981683 / 2 ^ 44"
  by (rule trans[OF round_double_eqI[where e = 7 and m = 6164301989963366]])
     (simp_all add: round_half_even_def Let_def)

lemma counterexample_double_b:
  "round_double (2353834492747259 / 2 ^ 42) = 2353834492747259 / 2 ^ 42"
  by (rule trans[OF round_double_eqI[where e = 9 and m = 4707668985494518]])
     (simp_all add: round_half_even_def Let_def)

theorem LonAxis_constrain_ticks_counterexample:
  "LonAxis_constrain_ticks [3082150994981683 / 2 ^ 44, 2353834492747259 / 2 ^ 42]
     = [3082150994981683 / 2 ^ 44, 2353834492747259 / 2 ^ 42]
   \<and> \<not> (2353834492747259 / 2 ^ 42 - 3082150994981683 / 2 ^ 44 \<le> 360 + 2 * (5 / 10 ^ 10 :: real))
   \<and> round_double (3082150994981683 / 2 ^ 44) = 3082150994981683 / 2 ^ 44
   \<and> round_double (2353834492747259 / 2 ^ 42) = 2353834492747259 / 2 ^ 42"
proof -
  have s: "sort [3082150994981683 / 2 ^ 44, 2353834492747259 / 2 ^ 42 :: real]
      = [3082150994981683 / 2 ^ 44, 2353834492747259 / 2 ^ 42]"
    by simp
  have "LonAxis_constrain_ticks [3082150994981683 / 2 ^ 44, 2353834492747259 / 2 ^ 42]
     = [3082150994981683 / 2 ^ 44, 2353834492747259 / 2 ^ 42]"
    unfolding LonAxis_constrain_ticks_def
    by (subst s, rule cut_looped_stop) (simp only: counterexample_not_looped simp_thms)
  moreover have
    "\<not> (2353834492747259 / 2 ^ 42 - 3082150994981683 / 2 ^ 44 \<le> 360 + 2 * (5 / 10 ^ 10 :: real))"
    by simp
  ultimately show ?thesis
    using counterexample_double_a counterexample_double_b by (simp only: simp_thms)
qed

subsection \<open>Latitude ticks\<close>

lemma lat_filter_in_range:
  "x \<in> set (filter (\<lambda>l. - latmax \<le> l \<and> l \<le> latmax) ticks) \<Longrightarrow> - latmax \<le> x \<and> x \<le> latmax"
  by simp



subsection \<open>Gridline zorder\<close>

text \<open>
  Claim C4. \<^verbatim>\<open>_axis_below_to_zorder\<close> maps \<^verbatim>\<open>True\<close> to 0.5, \<^verbatim>\<open>False\<close> to 2.5 and
  \<^verbatim>\<open>'lines'\<close> to 1.5, and raises \<^verbatim>\<open>ValueError\<close> on every other value.
\<close>

theorem axis_below_to_zorder_spec:
  "axis_below_to_zorder (PyBool True) = Inr (1 / 2)
   \<and> axis_below_to_zorder (PyBool False) = Inr (5 / 2)
   \<and> axis_below_to_zorder (PyStr ''lines'') = Inr (3 / 2)
   \<and> (\<forall>v. v \<noteq> PyBool True \<and> v \<noteq> PyBool False \<and> v \<noteq> PyStr ''lines'' \<longrightarrow>
        axis_below_to_zorder v = Inl ValueError)"
  by (simp add: axis_below_to_zorder_def)

theorem axis_below_to_zorder_witness:
  "PyInt 1 \<noteq> PyBool True \<and> PyInt 1 \<noteq> PyBool False \<and> PyInt 1 \<noteq> PyStr ''lines''
   \<and> axis_below_to_zorder (PyInt 1) = Inl ValueError"
  using axis_below_to_zorder_spec by simp

subsection \<open>Label arrays\<close>

lemma length_label_string_loop [simp]:
  "length (label_string_loop ps s array) = length array"
  by (induction ps s array rule: label_string_loop.induct) simp_all

lemma label_string_array:
  "label_string_loop (zip [0, 1, 2, 3] ''lrbt'') s (replicate 4 (PyInt 0)) =
     map (\<lambda>c. if c \<in> set s then PyInt 1 else PyInt 0) ''lrbt''"
  by (simp add: numeral_eq_Suc)

text \<open>
  Claim C2, amended. \<^verbatim>\<open>_to_label_array\<close> raises \<^verbatim>\<open>ValueError\<close> exactly when
  \<^verbatim>\<open>labels\<close> is neither \<^verbatim>\<open>None\<close> nor a string and its array form
  \<^verbatim>\<open>np.atleast_1d(labels)\<close> has length 0, 3 or more than 4. On \<^verbatim>\<open>None\<close>, on a string and
  on an array form of length 1, 2 or 4 it returns an array of four entries.
\<close>

theorem to_label_array_raises:
  "(to_label_array labels np_array lon = Inl ValueError \<longleftrightarrow>
      labels \<noteq> PyNone \<and> \<not> is_str labels \<and>
      (length np_array = 0 \<or> length np_array = 3 \<or> length np_array > 4))
   \<and> ((labels = PyNone \<or> is_str labels \<or> length np_array \<in> {1, 2, 4}) \<longrightarrow>
        (\<exists>array. to_label_array labels np_array lon = Inr array \<and> length array = 4))"
proof (cases "labels = PyNone")
  case True
  then show ?thesis by (simp add: to_label_array_def)
next
  case nn: False
  show ?thesis
  proof (cases "is_str labels")
    case True
    then obtain s where "labels = PyStr s" by (cases labels) simp_all
    then show ?thesis by (simp add: to_label_array_def)
  next
    case False
    consider "length np_array = 0" | "length np_array = 1"
      | "length np_array = 2" | "length np_array = 3"
      | "length np_array = 4" | "length np_array > 4"
      by linarith
    then show ?thesis
      using nn False by cases (simp_all add: to_label_array_def Let_def)
  qed
qed

theorem to_label_array_raises_witness:
  "np_atleast_1d (PySeq [PyBool True, PyBool False, PyBool True])
     = Some [PyBool True, PyBool False, PyBool True]
   \<and> to_label_array (PySeq [PyBool True, PyBool False, PyBool True])
        [PyBool True, PyBool False, PyBool True] True = Inl ValueError
   \<and> np_atleast_1d (PyBool True) = Some [PyBool True]
   \<and> length [PyBool True] \<in> {1, 2, 4}
   \<and> (\<exists>array. to_label_array (PyBool True) [PyBool True] True = Inr array \<and> length array = 4)"
proof -
  have n: "np_atleast_1d (PySeq [PyBool True, PyBool False, PyBool True])
     = Some [PyBool True, PyBool False, PyBool True]"
    "np_atleast_1d (PyBool True) = Some [PyBool True]"
    by (simp_all add: np_atleast_1d_seq_def)
  have a: "to_label_array (PySeq [PyBool True, PyBool False, PyBool True])
        [PyBool True, PyBool False, PyBool True] True = Inl ValueError"
    using to_label_array_raises[of "PySeq [PyBool True, PyBool False, PyBool True]"
        "[PyBool True, PyBool False, PyBool True]" True] by simp
  have h: "length [PyBool True] \<in> {1, 2, 4}" by simp
  then have "PyBool True = PyNone \<or> is_str (PyBool True)
    \<or> length [PyBool True] \<in> {1, 2, 4}" by blast
  with to_label_array_raises[of "PyBool True" "[PyBool True]" True]
  have "\<exists>array. to_label_array (PyBool True) [PyBool True] True = Inr array \<and> length array = 4"
    by blast
  with n a h show ?thesis by blast
qed

text \<open>
  The empty sequence is neither \<^verbatim>\<open>None\<close> nor a string, its array form is empty, so of a
  length that is neither 3 nor more than 4, and \<^verbatim>\<open>_to_label_array\<close> raises
  \<^verbatim>\<open>ValueError\<close> on it: the test \<^verbatim>\<open>len(array) != 4\<close> of line 574 rejects every length
  that is not 1, 2 or 4.
\<close>

theorem to_label_array_raises_counterexample:
  "np_atleast_1d (PySeq []) = Some []
   \<and> to_label_array (PySeq []) [] True = Inl ValueError
   \<and> \<not> (PySeq [] \<noteq> PyNone \<and> \<not> is_str (PySeq []) \<and>
          (length ([] :: pyval list) = 3 \<or> length ([] :: pyval list) > 4))"
  by (simp add: to_label_array_def np_atleast_1d_seq_def)

text \<open>
  Claim C3, amended. On a string, entry \<open>i\<close> of the result is 1 when the character
  \<^verbatim>\<open>'lrbt'[i]\<close> occurs in the string and 0 otherwise. For an argument that is neither
  \<^verbatim>\<open>None\<close> nor a string and whose array form \<^verbatim>\<open>np.atleast_1d(labels)\<close> has length 2,
  the two elements of the array form go to the (bottom, top) positions when \<^verbatim>\<open>lon\<close> is
  true and to the (left, right) positions when it is false, the other two positions being
  0. The array form of a pair of booleans is the pair itself; numpy converts a pair of a
  boolean and a string to two strings first. On \<^verbatim>\<open>None\<close> the result is four times
  \<^verbatim>\<open>None\<close>.
\<close>

theorem to_label_array_sides:
  "to_label_array (PyStr s) np_array lon =
     Inr (map (\<lambda>c. if c \<in> set s then PyInt 1 else PyInt 0) ''lrbt'')
   \<and> (labels \<noteq> PyNone \<and> \<not> is_str labels \<longrightarrow>
        to_label_array labels [a, b] True = Inr [PyInt 0, PyInt 0, a, b]
        \<and> to_label_array labels [a, b] False = Inr [a, b, PyInt 0, PyInt 0])
   \<and> np_atleast_1d (PySeq [PyBool p, PyBool q]) = Some [PyBool p, PyBool q]
   \<and> to_label_array (PySeq [PyBool p, PyBool q]) [PyBool p, PyBool q] True
        = Inr [PyInt 0, PyInt 0, PyBool p, PyBool q]
   \<and> to_label_array (PySeq [PyBool p, PyBool q]) [PyBool p, PyBool q] False
        = Inr [PyBool p, PyBool q, PyInt 0, PyInt 0]
   \<and> to_label_array PyNone np_array lon = Inr [PyNone, PyNone, PyNone, PyNone]"
proof -
  have "to_label_array (PyStr s) np_array lon =
     Inr (map (\<lambda>c. if c \<in> set s then PyInt 1 else PyInt 0) ''lrbt'')"
    unfolding to_label_array_def Let_def
    by (simp only: label_string_array) simp
  moreover have "to_label_array labels [a, b] True = Inr [PyInt 0, PyInt 0, a, b]"
    "to_label_array labels [a, b] False = Inr [a, b, PyInt 0, PyInt 0]"
    if "labels \<noteq> PyNone \<and> \<not> is_str labels"
    using that by (simp_all add: to_label_array_def)
  moreover have "np_atleast_1d (PySeq [PyBool p, PyBool q]) = Some [PyBool p, PyBool q]"
    by (simp add: np_atleast_1d_seq_def)
  moreover have "to_label_array (PySeq [PyBool p, PyBool q]) [PyBool p, PyBool q] True
        = Inr [PyInt 0, PyInt 0, PyBool p, PyBool q]"
    "to_label_array (PySeq [PyBool p, PyBool q]) [PyBool p, PyBool q] False
        = Inr [PyBool p, PyBool q, PyInt 0, PyInt 0]"
    by (simp_all add: to_label_array_def)
  moreover have "to_label_array PyNone np_array lon = Inr [PyNone, PyNone, PyNone, PyNone]"
    by (simp add: to_label_array_def numeral_eq_Suc)
  ultimately show ?thesis by blast
qed

theorem to_label_array_sides_witness:
  "to_label_array (PyStr ''lb'') [] True = Inr [PyInt 1, PyInt 0, PyInt 1, PyInt 0]
   \<and> PySeq [PyBool False, PyStr ''b''] \<noteq> PyNone \<and> \<not> is_str (PySeq [PyBool False, PyStr ''b''])
   \<and> to_label_array (PySeq [PyBool False, PyStr ''b'']) [PyStr ''False'', PyStr ''b''] True
        = Inr [PyInt 0, PyInt 0, PyStr ''False'', PyStr ''b'']
   \<and> to_label_array (PySeq [PyBool True, PyBool False]) [PyBool True, PyBool False] False
        = Inr [PyBool True, PyBool False, PyInt 0, PyInt 0]"
proof -
  have h: "PySeq [PyBool False, PyStr ''b''] \<noteq> PyNone
      \<and> \<not> is_str (PySeq [PyBool False, PyStr ''b''])" by simp
  from to_label_array_sides[of "''lb''" "[]" True "PySeq [PyBool False, PyStr ''b'']"
      "PyStr ''False''" "PyStr ''b''" True False] h
  show ?thesis by simp
qed

text \<open>
  For the pair of \<^verbatim>\<open>False\<close> and the string \<^verbatim>\<open>'b'\<close>, line 566 gets an array of the two
  strings \<^verbatim>\<open>'False'\<close> and \<^verbatim>\<open>'b'\<close> from numpy, and these are the values that are placed:
  the first is not the given \<^verbatim>\<open>False\<close>.
\<close>

theorem to_label_array_sides_counterexample:
  "np_atleast_1d (PySeq [PyBool False, PyStr ''b'']) = Some [PyStr ''False'', PyStr ''b'']
   \<and> to_label_array (PySeq [PyBool False, PyStr ''b'']) [PyStr ''False'', PyStr ''b''] True
        = Inr [PyInt 0, PyInt 0, PyStr ''False'', PyStr ''b'']
   \<and> [PyInt 0, PyInt 0, PyStr ''False'', PyStr ''b'']
        \<noteq> [PyInt 0, PyInt 0, PyBool False, PyStr ''b'']"
  by (simp add: to_label_array_def np_atleast_1d_seq_def np_str_element_def)

subsection \<open>Gridliner label attributes\<close>

text \<open>
  Claim C7. \<^verbatim>\<open>_toggle_gridliner_labels\<close> assigns each argument that is not \<^verbatim>\<open>None\<close>
  to \<^verbatim>\<open>left_labels\<close>, \<^verbatim>\<open>right_labels\<close>, \<^verbatim>\<open>bottom_labels\<close>, \<^verbatim>\<open>top_labels\<close> when
  cartopy is at least 0.18, and to \<^verbatim>\<open>ylabels_left\<close>, \<^verbatim>\<open>ylabels_right\<close>,
  \<^verbatim>\<open>xlabels_bottom\<close>, \<^verbatim>\<open>xlabels_top\<close> when it is older; every other attribute of the
  gridliner, and the attribute of an argument that is \<^verbatim>\<open>None\<close>, keeps its value.
\<close>

theorem toggle_gridliner_labels_spec:
  "(version_ge version_cartopy (0, 18) \<longrightarrow>
      toggle_gridliner_labels version_cartopy gl left right bottom top' =
        (\<lambda>name. if name = ''top_labels'' \<and> top' \<noteq> PyNone then Some top'
                 else if name = ''bottom_labels'' \<and> bottom \<noteq> PyNone then Some bottom
                 else if name = ''right_labels'' \<and> right \<noteq> PyNone then Some right
                 else if name = ''left_labels'' \<and> left \<noteq> PyNone then Some left
                 else gl name))
   \<and> (\<not> version_ge version_cartopy (0, 18) \<longrightarrow>
      toggle_gridliner_labels version_cartopy gl left right bottom top' =
        (\<lambda>name. if name = ''xlabels_top'' \<and> top' \<noteq> PyNone then Some top'
                 else if name = ''xlabels_bottom'' \<and> bottom \<noteq> PyNone then Some bottom
                 else if name = ''ylabels_right'' \<and> right \<noteq> PyNone then Some right
                 else if name = ''ylabels_left'' \<and> left \<noteq> PyNone then Some left
                 else gl name))"
  by (auto simp: toggle_gridliner_labels_def setattr_def fun_eq_iff)

theorem toggle_gridliner_labels_witness:
  "version_ge (0, 18) (0, 18) \<and> \<not> version_ge (0, 17) (0, 18)
   \<and> toggle_gridliner_labels (0, 18) Map.empty (PyBool True) PyNone PyNone (PyBool False)
        ''left_labels'' = Some (PyBool True)
   \<and> toggle_gridliner_labels (0, 18) Map.empty (PyBool True) PyNone PyNone (PyBool False)
        ''right_labels'' = None
   \<and> toggle_gridliner_labels (0, 17) Map.empty (PyBool True) PyNone PyNone (PyBool False)
        ''xlabels_top'' = Some (PyBool False)
   \<and> toggle_gridliner_labels (0, 17) Map.empty (PyBool True) PyNone PyNone (PyBool False)
        ''left_labels'' = None"
proof -
  have a: "version_ge (0, 18) (0, 18)" and b: "\<not> version_ge (0, 17) (0, 18)"
    by (simp_all add: version_ge_def)
  from toggle_gridliner_labels_spec[of "(0, 18)" Map.empty "PyBool True" PyNone PyNone "PyBool False"] a
  have c: "toggle_gridliner_labels (0, 18) Map.empty (PyBool True) PyNone PyNone (PyBool False) =
        (\<lambda>name. if name = ''top_labels'' \<and> PyBool False \<noteq> PyNone then Some (PyBool False)
                 else if name = ''bottom_labels'' \<and> PyNone \<noteq> PyNone then Some PyNone
                 else if name = ''right_labels'' \<and> PyNone \<noteq> PyNone then Some PyNone
                 else if name = ''left_labels'' \<and> PyBool True \<noteq> PyNone then Some (PyBool True)
                 else Map.empty name)" by blast
  from toggle_gridliner_labels_spec[of "(0, 17)" Map.empty "PyBool True" PyNone PyNone "PyBool False"] b
  have d: "toggle_gridliner_labels (0, 17) Map.empty (PyBool True) PyNone PyNone (PyBool False) =
        (\<lambda>name. if name = ''xlabels_top'' \<and> PyBool False \<noteq> PyNone then Some (PyBool False)
                 else if name = ''xlabels_bottom'' \<and> PyNone \<noteq> PyNone then Some PyNone
                 else if name = ''ylabels_right'' \<and> PyNone \<noteq> PyNone then Some PyNone
                 else if name = ''ylabels_left'' \<and> PyBool True \<noteq> PyNone then Some (PyBool True)
                 else Map.empty name)" by blast
  show ?thesis using a b by (simp add: c d)
qed

subsection \<open>Construction and the basemap extent\<close>

text \<open>
  Claim C1, amended. When cartopy can be imported, \<^verbatim>\<open>CartopyAxes.__init__\<close> raises
  \<^verbatim>\<open>ValueError\<close> for every \<^verbatim>\<open>map_projection\<close> that is not a cartopy projection, and
  when basemap can be imported, \<^verbatim>\<open>BasemapAxes.__init__\<close> raises \<^verbatim>\<open>ValueError\<close> for every
  \<^verbatim>\<open>map_projection\<close> that is not a \<^verbatim>\<open>Basemap\<close>. When the library cannot be imported,
  the constructor raises \<^verbatim>\<open>ModuleNotFoundError\<close> for every argument.
\<close>

theorem init_invalid_projection:
  "(cartopy_installed \<and> \<not> is_cartopy_projection mp \<longrightarrow>
      CartopyAxes_init cartopy_installed mp = Inl ValueError)
   \<and> (basemap_installed \<and> \<not> is_basemap mp \<longrightarrow>
      BasemapAxes_init basemap_installed mp = Inl ValueError)
   \<and> (\<not> cartopy_installed \<longrightarrow> CartopyAxes_init cartopy_installed mp = Inl ModuleNotFoundError)
   \<and> (\<not> basemap_installed \<longrightarrow> BasemapAxes_init basemap_installed mp = Inl ModuleNotFoundError)"
  by (cases mp) (auto simp: CartopyAxes_init_def BasemapAxes_init_def)

theorem init_invalid_projection_witness:
  "\<not> is_cartopy_projection (OtherValue (PyStr ''merc''))
   \<and> CartopyAxes_init True (OtherValue (PyStr ''merc'')) = Inl ValueError
   \<and> \<not> is_basemap (CartopyProjection Mercator)
   \<and> BasemapAxes_init True (CartopyProjection Mercator) = Inl ValueError
   \<and> CartopyAxes_init False (CartopyProjection Mercator) = Inl ModuleNotFoundError
   \<and> BasemapAxes_init False (OtherValue PyNone) = Inl ModuleNotFoundError"
proof -
  have a: "\<not> is_cartopy_projection (OtherValue (PyStr ''merc''))"
    and b: "\<not> is_basemap (CartopyProjection Mercator)" by simp_all
  from init_invalid_projection[of True "OtherValue (PyStr ''merc'')"] a
  have c: "CartopyAxes_init True (OtherValue (PyStr ''merc'')) = Inl ValueError" by blast
  from init_invalid_projection[of _ "CartopyProjection Mercator" True] b
  have d: "BasemapAxes_init True (CartopyProjection Mercator) = Inl ValueError" by blast
  from init_invalid_projection[of False "CartopyProjection Mercator"]
  have e: "CartopyAxes_init False (CartopyProjection Mercator) = Inl ModuleNotFoundError" by blast
  from init_invalid_projection[of _ "OtherValue PyNone" False]
  have f: "BasemapAxes_init False (OtherValue PyNone) = Inl ModuleNotFoundError" by blast
  from a b c d e f show ?thesis by blast
qed

text \<open>
  Without cartopy, \<^verbatim>\<open>import cartopy\<close> at line 627 raises before the test of the
  argument: the constructor called with \<^verbatim>\<open>None\<close> raises \<^verbatim>\<open>ModuleNotFoundError\<close>, which
  is not \<^verbatim>\<open>ValueError\<close>.
\<close>

theorem init_invalid_projection_counterexample:
  "\<not> is_cartopy_projection (OtherValue PyNone)
   \<and> CartopyAxes_init False (OtherValue PyNone) \<noteq> Inl ValueError"
  by (simp add: CartopyAxes_init_def)

text \<open>
  Claim C9. \<^verbatim>\<open>BasemapAxes._update_extent\<close> returns the axes as it got it, whatever the
  three arguments, and it warns (once) exactly when one of them is not \<^verbatim>\<open>None\<close>.
\<close>

theorem BasemapAxes_update_extent_noop:
  "fst (BasemapAxes_update_extent self lonlim latlim boundinglat) = self
   \<and> (snd (BasemapAxes_update_extent self lonlim latlim boundinglat) \<noteq> [] \<longleftrightarrow>
        lonlim \<noteq> PyNone \<or> latlim \<noteq> PyNone \<or> boundinglat \<noteq> PyNone)
   \<and> length (snd (BasemapAxes_update_extent self lonlim latlim boundinglat)) \<le> 1"
  by (simp add: BasemapAxes_update_extent_def)

theorem BasemapAxes_update_extent_witness:
  "(\<exists>self. BasemapAxes_init True
        (BasemapProjection \<lparr>bm_projection = ''npstere'', bm_boundinglat = Some 60,
           bm_lonmin = None, bm_lonmax = None, bm_latmin = None, bm_latmax = None,
           bm_lon_0 = Some 0\<rparr>) = Inr self
      \<and> ba_lat_interval self = (60, 90)
      \<and> fst (BasemapAxes_update_extent self PyNone PyNone (PyInt 40)) = self
      \<and> snd (BasemapAxes_update_extent self PyNone PyNone (PyInt 40)) \<noteq> []
      \<and> snd (BasemapAxes_update_extent self PyNone PyNone PyNone) = [])"
proof -
  define b where "b = \<lparr>bm_projection = ''npstere'', bm_boundinglat = Some (60::real),
           bm_lonmin = None, bm_lonmax = None, bm_latmin = None, bm_latmax = None,
           bm_lon_0 = Some (0::real)\<rparr>"
  obtain self where s: "BasemapAxes_init True (BasemapProjection b) = Inr self"
    by (simp add: BasemapAxes_init_def Let_def)
  have i: "ba_lat_interval self = (60, 90)"
    using s by (auto simp: BasemapAxes_init_def BasemapAxes_extent_def b_def Let_def
      basemap_proj_polar_def basemap_proj_north_def basemap_proj_south_def basemap_get_lon0_def)
  have "snd (BasemapAxes_update_extent self PyNone PyNone (PyInt 40)) \<noteq> []"
    using BasemapAxes_update_extent_noop[of self PyNone PyNone "PyInt 40"] by simp
  moreover have "snd (BasemapAxes_update_extent self PyNone PyNone PyNone) = []"
    using BasemapAxes_update_extent_noop[of self PyNone PyNone PyNone] by simp
  moreover have "fst (BasemapAxes_update_extent self PyNone PyNone (PyInt 40)) = self"
    using BasemapAxes_update_extent_noop[of self PyNone PyNone "PyInt 40"] by simp
  ultimately show ?thesis using s i unfolding b_def by blast
qed

subsection \<open>Cached gridliners\<close>

lemma init_gridlines_fst: "fst (init_gridlines env self) = length (ca_gridliners self)"
  by (simp add: init_gridlines_def Let_def)

lemma init_gridlines_snd:
  "length (ca_gridliners (snd (init_gridlines env self))) = Suc (length (ca_gridliners self))"
  "ca_gridlines_major (snd (init_gridlines env self)) = ca_gridlines_major self"
  "ca_gridlines_minor (snd (init_gridlines env self)) = ca_gridlines_minor self"
  by (simp_all add: init_gridlines_def Let_def)

lemma update_major_cached:
  assumes "ca_gridlines_major self = Some gl"
  shows "ca_gridlines_major (fst (update_major_gridlines env args self)) = Some gl"
    and "length (ca_gridliners (fst (update_major_gridlines env args self))) =
         length (ca_gridliners self)"
    and "ca_gridlines_minor (fst (update_major_gridlines env args self)) = ca_gridlines_minor self"
  using assms
  by (auto simp: update_major_gridlines_def Let_def split: prod.splits option.splits)

lemma update_major_fresh:
  assumes "ca_gridlines_major self = None"
  shows "ca_gridlines_major (fst (update_major_gridlines env args self)) =
           Some (length (ca_gridliners self))"
    and "length (ca_gridliners (fst (update_major_gridlines env args self))) =
         Suc (length (ca_gridliners self))"
    and "ca_gridlines_minor (fst (update_major_gridlines env args self)) = ca_gridlines_minor self"
  using assms
  by (auto simp: update_major_gridlines_def init_gridlines_def Let_def
      split: prod.splits option.splits)

lemma update_minor_cached:
  assumes "ca_gridlines_minor self = Some gl"
  shows "ca_gridlines_minor (fst (update_minor_gridlines env longrid latgrid self)) = Some gl"
    and "length (ca_gridliners (fst (update_minor_gridlines env longrid latgrid self))) =
         length (ca_gridliners self)"
    and "ca_gridlines_major (fst (update_minor_gridlines env longrid latgrid self)) =
         ca_gridlines_major self"
  using assms
  by (auto simp: update_minor_gridlines_def Let_def split: prod.splits option.splits)

lemma update_minor_fresh:
  assumes "ca_gridlines_minor self = None"
  shows "ca_gridlines_minor (fst (update_minor_gridlines env longrid latgrid self)) =
           Some (length (ca_gridliners self))"
    and "length (ca_gridliners (fst (update_minor_gridlines env longrid latgrid self))) =
         Suc (length (ca_gridliners self))"
    and "ca_gridlines_major (fst (update_minor_gridlines env longrid latgrid self)) =
         ca_gridlines_major self"
  using assms
  by (auto simp: update_minor_gridlines_def init_gridlines_def Let_def
      split: prod.splits option.splits)

lemma update_major_inv:
  "gridlines_inv self \<Longrightarrow> gridlines_inv (fst (update_major_gridlines env args self))"
proof (cases "ca_gridlines_major self")
  case None
  assume "gridlines_inv self"
  with None update_major_fresh[OF None, of env args] show ?thesis
    by (simp add: gridlines_inv_def)
next
  case (Some gl)
  assume "gridlines_inv self"
  with Some update_major_cached[OF Some, of env args] show ?thesis
    by (simp add: gridlines_inv_def)
qed

lemma update_minor_inv:
  "gridlines_inv self \<Longrightarrow> gridlines_inv (fst (update_minor_gridlines env lg tg self))"
proof (cases "ca_gridlines_minor self")
  case None
  assume "gridlines_inv self"
  with None update_minor_fresh[OF None, of env lg tg] show ?thesis
    by (simp add: gridlines_inv_def)
next
  case (Some gl)
  assume "gridlines_inv self"
  with Some update_minor_cached[OF Some, of env lg tg] show ?thesis
    by (simp add: gridlines_inv_def)
qed

lemma format_gridlines_cases:
  "fst (format_gridlines c self) = fst (update_major_gridlines (fc_env c) (fc_major c) self)
   \<or> fst (format_gridlines c self) =
       fst (update_minor_gridlines (fc_env c) (fc_longridminor c) (fc_latgridminor c)
             (fst (update_major_gridlines (fc_env c) (fc_major c) self)))"
  by (auto simp: format_gridlines_def split: prod.splits option.splits)

lemma format_gridlines_inv:
  "gridlines_inv self \<Longrightarrow> gridlines_inv (fst (format_gridlines c self))"
  using format_gridlines_cases[of c self] update_major_inv update_minor_inv by metis

lemma format_gridlines_major_kept:
  assumes "ca_gridlines_major self = Some gl"
  shows "ca_gridlines_major (fst (format_gridlines c self)) = Some gl"
  using format_gridlines_cases[of c self] update_major_cached(1)[OF assms]
    update_minor_cached(3) update_minor_fresh(3)
  by (metis not_None_eq)

lemma format_gridlines_minor_kept:
  assumes "ca_gridlines_minor self = Some gl"
  shows "ca_gridlines_minor (fst (format_gridlines c self)) = Some gl"
proof -
  let ?s = "fst (update_major_gridlines (fc_env c) (fc_major c) self)"
  have "ca_gridlines_minor ?s = Some gl"
    using assms update_major_cached(3) update_major_fresh(3)
    by (cases "ca_gridlines_major self") (simp_all)
  then show ?thesis
    using format_gridlines_cases[of c self] update_minor_cached(1) by metis
qed

lemma repeated_format_inv:
  "gridlines_inv self \<Longrightarrow> gridlines_inv (repeated_format calls self)"
  unfolding repeated_format_def
  by (induction calls arbitrary: self) (simp_all add: format_gridlines_inv)

lemma repeated_format_major_kept:
  "ca_gridlines_major self = Some gl \<Longrightarrow>
   ca_gridlines_major (repeated_format calls self) = Some gl"
  unfolding repeated_format_def
  by (induction calls arbitrary: self) (simp_all add: format_gridlines_major_kept)

lemma repeated_format_minor_kept:
  "ca_gridlines_minor self = Some gl \<Longrightarrow>
   ca_gridlines_minor (repeated_format calls self) = Some gl"
  unfolding repeated_format_def
  by (induction calls arbitrary: self) (simp_all add: format_gridlines_minor_kept)

lemma init_inv: "CartopyAxes_init installed mp = Inr self \<Longrightarrow> gridlines_inv self"
  by (auto simp: CartopyAxes_init_def gridlines_inv_def Let_def
      split: if_splits map_projection.splits)

lemma inv_le_2: "gridlines_inv s \<Longrightarrow> length (ca_gridliners s) \<le> 2"
  by (simp add: gridlines_inv_def)


text \<open>
  Claim C5. \<^verbatim>\<open>_update_major_gridlines\<close> creates a gridliner only when
  \<^verbatim>\<open>_gridlines_major\<close> holds none, and then caches it; when one is cached it keeps it and
  creates nothing. \<^verbatim>\<open>_update_minor_gridlines\<close> does the same with \<^verbatim>\<open>_gridlines_minor\<close>.
  So a cached gridliner stays the same object over any number of \<^verbatim>\<open>format\<close> calls, and
  an axes that \<^verbatim>\<open>__init__\<close> has set up never holds more than its one major and its one
  minor gridliner, whether or not the calls raise.
\<close>

theorem gridliners_created_once:
  "(ca_gridlines_major self = Some gl \<longrightarrow>
      ca_gridlines_major (fst (update_major_gridlines env args self)) = Some gl
      \<and> length (ca_gridliners (fst (update_major_gridlines env args self))) =
          length (ca_gridliners self))
   \<and> (ca_gridlines_major self = None \<longrightarrow>
      ca_gridlines_major (fst (update_major_gridlines env args self)) =
        Some (length (ca_gridliners self))
      \<and> length (ca_gridliners (fst (update_major_gridlines env args self))) =
          length (ca_gridliners self) + 1)
   \<and> (ca_gridlines_minor self = Some gl' \<longrightarrow>
      ca_gridlines_minor (fst (update_minor_gridlines env longrid latgrid self)) = Some gl'
      \<and> length (ca_gridliners (fst (update_minor_gridlines env longrid latgrid self))) =
          length (ca_gridliners self))
   \<and> (ca_gridlines_minor self = None \<longrightarrow>
      ca_gridlines_minor (fst (update_minor_gridlines env longrid latgrid self)) =
        Some (length (ca_gridliners self))
      \<and> length (ca_gridliners (fst (update_minor_gridlines env longrid latgrid self))) =
          length (ca_gridliners self) + 1)
   \<and> (ca_gridlines_major self = Some gl \<longrightarrow>
      ca_gridlines_major (repeated_format calls self) = Some gl)
   \<and> (ca_gridlines_minor self = Some gl' \<longrightarrow>
      ca_gridlines_minor (repeated_format calls self) = Some gl')
   \<and> (CartopyAxes_init installed mp = Inr self \<longrightarrow>
      gridlines_inv (repeated_format calls self)
      \<and> length (ca_gridliners (repeated_format calls self)) \<le> 2)"
proof -
  have "gridlines_inv (repeated_format calls self)
      \<and> length (ca_gridliners (repeated_format calls self)) \<le> 2"
    if "CartopyAxes_init installed mp = Inr self"
  proof -
    have "gridlines_inv (repeated_format calls self)"
      using that by (intro repeated_format_inv init_inv)
    then show ?thesis by (simp add: inv_le_2)
  qed
  then show ?thesis
    using update_major_cached(1,2)[of self gl env args]
      update_major_fresh(1,2)[of self env args]
      update_minor_cached(1,2)[of self gl' env longrid latgrid]
      update_minor_fresh(1,2)[of self env longrid latgrid]
      repeated_format_major_kept[of self gl calls]
      repeated_format_minor_kept[of self gl' calls]
    by simp
qed

theorem gridliners_created_once_witness:
  "\<exists>s0 c0.
     c0 = \<lparr>fc_env =
            \<lparr>ge_version = (0, 18),
             ge_rc = \<lparr>rc_value = (\<lambda>context key. PyNone), rc_context_mode = 2\<rparr>,
             ge_ticks = \<lparr>lon_major_ticks = [0, 180], lon_minor_ticks = [0, 90],
                         lat_major_ticks = [- 90, 0, 90], lat_minor_ticks = [0]\<rparr>,
             ge_new_gridliner =
               [''collection_kwargs'' \<mapsto> PyDict [], ''xlabel_style'' \<mapsto> PyDict [],
                ''ylabel_style'' \<mapsto> PyDict []],
             ge_lonformatter = PyObj ''deglon'', ge_latformatter = PyObj ''deglat''\<rparr>,
           fc_major =
            \<lparr>ma_longrid = PyBool True, ma_latgrid = PyBool True,
             ma_lonarray = [PyInt 0, PyInt 0, PyInt 1, PyInt 0],
             ma_latarray = [PyInt 1, PyInt 0, PyInt 0, PyInt 0],
             ma_loninline = PyNone, ma_latinline = PyNone, ma_labelpad = PyNone,
             ma_rotate_labels = PyNone\<rparr>,
           fc_longridminor = PyBool False, fc_latgridminor = PyBool False\<rparr>
     \<and> CartopyAxes_init True (CartopyProjection Mercator) = Inr s0
     \<and> ca_gridlines_major s0 = None
     \<and> snd (format_gridlines c0 s0) = None
     \<and> ca_gridlines_major (fst (update_major_gridlines (fc_env c0) (fc_major c0) s0)) = Some 0
     \<and> ca_gridlines_major (fst (format_gridlines c0 s0)) = Some 0
     \<and> ca_gridlines_minor (fst (format_gridlines c0 s0)) = Some 1
     \<and> ca_gridlines_major (fst (update_major_gridlines (fc_env c0) (fc_major c0)
           (fst (format_gridlines c0 s0)))) = Some 0
     \<and> length (ca_gridliners (fst (update_major_gridlines (fc_env c0) (fc_major c0)
           (fst (format_gridlines c0 s0))))) = 2
     \<and> ca_gridlines_minor (repeated_format [c0, c0, c0] (fst (format_gridlines c0 s0))) = Some 1
     \<and> length (ca_gridliners (repeated_format [c0, c0, c0] s0)) \<le> 2"
proof -
  define c0 where "c0 = \<lparr>fc_env =
            \<lparr>ge_version = (0, 18),
             ge_rc = \<lparr>rc_value = (\<lambda>context key. PyNone), rc_context_mode = 2\<rparr>,
             ge_ticks = \<lparr>lon_major_ticks = [0, 180], lon_minor_ticks = [0, 90],
                         lat_major_ticks = [- 90, 0, 90], lat_minor_ticks = [0]\<rparr>,
             ge_new_gridliner =
               [''collection_kwargs'' \<mapsto> PyDict [], ''xlabel_style'' \<mapsto> PyDict [],
                ''ylabel_style'' \<mapsto> PyDict []],
             ge_lonformatter = PyObj ''deglon'', ge_latformatter = PyObj ''deglat''\<rparr>,
           fc_major =
            \<lparr>ma_longrid = PyBool True, ma_latgrid = PyBool True,
             ma_lonarray = [PyInt 0, PyInt 0, PyInt 1, PyInt 0],
             ma_latarray = [PyInt 1, PyInt 0, PyInt 0, PyInt 0],
             ma_loninline = PyNone, ma_latinline = PyNone, ma_labelpad = PyNone,
             ma_rotate_labels = PyNone\<rparr>,
           fc_longridminor = PyBool False, fc_latgridminor = PyBool False\<rparr>"
  define s0 where "s0 = \<lparr>ca_boundinglat = PyNone, ca_map_projection = Mercator,
                    ca_gridlines_major = None, ca_gridlines_minor = None,
                    ca_latmax = 90, ca_gridliners = [], ca_warnings = []\<rparr>"
  have i: "CartopyAxes_init True (CartopyProjection Mercator) = Inr s0"
    by (simp add: CartopyAxes_init_def s0_def cartopy_proj_polar_def cartopy_proj_north_def
        cartopy_proj_south_def)
  have n: "ca_gridlines_major s0 = None" by (simp add: s0_def)
  have l: "ca_gridliners s0 = []" by (simp add: s0_def)
  have ok: "snd (format_gridlines c0 s0) = None"
    by (simp add: format_gridlines_def update_major_gridlines_def update_minor_gridlines_def
        init_gridlines_def update_gridlines_def get_gridline_props_def rc_fill_def
        attr_dict_update_def setattr_def toggle_gridliner_labels_def version_ge_def
        version_lt_def major_gridline_labels_def get_latticklocs_def
        LatAxis_constrain_ticks_def dict_update_def Let_def c0_def s0_def)
  have s1: "ca_gridlines_major (fst (format_gridlines c0 s0)) = Some 0"
    "ca_gridlines_minor (fst (format_gridlines c0 s0)) = Some 1"
    "length (ca_gridliners (fst (format_gridlines c0 s0))) = 2"
    by (simp_all add: format_gridlines_def update_major_gridlines_def update_minor_gridlines_def
        init_gridlines_def update_gridlines_def get_gridline_props_def rc_fill_def
        attr_dict_update_def setattr_def toggle_gridliner_labels_def version_ge_def
        version_lt_def major_gridline_labels_def get_latticklocs_def
        LatAxis_constrain_ticks_def dict_update_def Let_def c0_def s0_def)
  from gridliners_created_once[of s0 _ "fc_env c0" "fc_major c0" _ _ _ "[c0, c0, c0]" True
      "CartopyProjection Mercator"] i n l
  have a: "ca_gridlines_major (fst (update_major_gridlines (fc_env c0) (fc_major c0) s0)) = Some 0"
    and b: "length (ca_gridliners (repeated_format [c0, c0, c0] s0)) \<le> 2"
    by simp_all
  from gridliners_created_once[of "fst (format_gridlines c0 s0)" 0 "fc_env c0" "fc_major c0"
      1 _ _ "[c0, c0, c0]"] s1
  have c: "ca_gridlines_major (fst (update_major_gridlines (fc_env c0) (fc_major c0)
           (fst (format_gridlines c0 s0)))) = Some 0"
    and d: "length (ca_gridliners (fst (update_major_gridlines (fc_env c0) (fc_major c0)
           (fst (format_gridlines c0 s0))))) = 2"
    and e: "ca_gridlines_minor (repeated_format [c0, c0, c0] (fst (format_gridlines c0 s0))) = Some 1"
    by simp_all
  from i n ok a b c d e s1(1,2) c0_def show ?thesis by blast
qed

subsection \<open>The calls of format\<close>

lemma do_call_Inr: "do_call ext c tr = Inr tr' \<Longrightarrow> tr' = tr @ [c]"
  by (auto simp: do_call_def split: option.splits)

lemma do_call_total: "ext c = None \<Longrightarrow> do_call ext c tr = Inr (tr @ [c])"
  by (simp add: do_call_def)

lemma call_if_Inr:
  "call_if b ext c tr = Inr tr' \<Longrightarrow> tr' = tr @ (if b then [c] else [])"
  by (cases b) (auto simp: call_if_def dest: do_call_Inr)

lemma steps_append:
  "steps (fs @ gs) tr = (case steps fs tr of Inl e \<Rightarrow> Inl e | Inr t \<Rightarrow> steps gs t)"
  by (induction fs arbitrary: tr) (auto split: sum.splits)

lemma steps_do_calls:
  "steps (map (do_call ext) cs) tr = Inr tr' \<Longrightarrow> tr' = tr @ cs"
proof (induction cs arbitrary: tr)
  case Nil
  then show ?case by simp
next
  case (Cons c cs)
  from Cons.prems obtain t where t: "do_call ext c tr = Inr t"
    and r: "steps (map (do_call ext) cs) t = Inr tr'"
    by (auto split: sum.splits)
  from t have "t = tr @ [c]" by (rule do_call_Inr)
  with Cons.IH[OF r] show ?case by simp
qed

lemma steps_do_calls_total:
  "(\<And>c. ext c = None) \<Longrightarrow> steps (map (do_call ext) cs) tr = Inr (tr @ cs)"
  by (induction cs arbitrary: tr) (simp_all add: do_call_total)

lemma steps_setters:
  assumes "\<And>f tr tr'. f \<in> set fs \<Longrightarrow> f tr = Inr tr' \<Longrightarrow>
             \<exists>ss. tr' = tr @ ss \<and> list_all is_setter ss"
    and "steps fs tr = Inr tr'"
  shows "\<exists>ss. tr' = tr @ ss \<and> list_all is_setter ss"
  using assms
proof (induction fs arbitrary: tr)
  case Nil
  then show ?case by simp
next
  case (Cons f fs)
  from Cons.prems(2) obtain tr1 where f: "f tr = Inr tr1" and r: "steps fs tr1 = Inr tr'"
    by (auto split: sum.splits)
  from Cons.prems(1)[of f tr tr1] f obtain s1 where s1: "tr1 = tr @ s1" "list_all is_setter s1"
    by auto
  have "\<exists>ss. tr' = tr1 @ ss \<and> list_all is_setter ss"
  proof (rule Cons.IH[OF _ r])
    fix g t t'
    assume "g \<in> set fs" "g t = Inr t'"
    then show "\<exists>ss. t' = t @ ss \<and> list_all is_setter ss"
      using Cons.prems(1)[of g t t'] by simp
  qed
  then obtain s2 where "tr' = tr1 @ s2" "list_all is_setter s2" by blast
  with s1 have "tr' = tr @ (s1 @ s2) \<and> list_all is_setter (s1 @ s2)" by simp
  then show ?case by blast
qed

lemma format_setters_step:
  assumes "f \<in> set (format_setters env ckw)" and "f tr = Inr tr'"
  shows "\<exists>ss. tr' = tr @ ss \<and> list_all is_setter ss"
  using assms unfolding format_setters_def Let_def
  by (auto dest!: call_if_Inr)

lemma steps_total:
  assumes "\<And>f tr. f \<in> set fs \<Longrightarrow> \<exists>tr'. f tr = Inr tr'"
  shows "\<exists>tr'. steps fs tr = Inr tr'"
  using assms
proof (induction fs arbitrary: tr)
  case Nil
  then show ?case by simp
next
  case (Cons f fs)
  from Cons.prems[of f tr] obtain tr1 where "f tr = Inr tr1" by auto
  moreover from Cons.IH[of tr1] Cons.prems obtain tr2 where "steps fs tr1 = Inr tr2" by auto
  ultimately show ?case by simp
qed

lemma format_setters_total:
  assumes "\<And>c. fe_extern env c = None"
    and "f \<in> set (format_setters env ckw)"
  shows "\<exists>tr'. f tr = Inr tr'"
  using assms(2) unfolding format_setters_def Let_def
  by (auto simp: call_if_def do_call_total[OF assms(1)])

lemma dict_set_new: "k \<notin> fst ` set kw \<Longrightarrow> dict_set kw k v = kw @ [(k, v)]"
  by (induction kw) auto

lemma parse_format_loop_kw:
  assumes "parse_format_loop t rest rc_kw kw = Inr (rc_kw', kw')"
    and "distinct (map fst rest)" and "fst ` set rest \<inter> fst ` set kw = {}"
  shows "kw' = kw @ filter (\<lambda>(k, v). t k = None) rest"
  using assms
proof (induction rest arbitrary: rc_kw kw)
  case Nil
  then show ?case by simp
next
  case (Cons kv rest)
  obtain k v where kv: "kv = (k, v)" by (cases kv)
  show ?case
  proof (cases "t k")
    case None
    from Cons.prems(3) have new: "k \<notin> fst ` set kw" by (auto simp: kv)
    have r: "parse_format_loop t rest rc_kw (kw @ [(k, v)]) = Inr (rc_kw', kw')"
      using Cons.prems(1) None by (simp add: kv dict_set_new[OF new])
    have "fst ` set rest \<inter> fst ` set (kw @ [(k, v)]) = {}"
      using Cons.prems(2,3) by (auto simp: kv)
    from Cons.IH[OF r _ this] Cons.prems(2) None show ?thesis by (simp add: kv)
  next
    case (Some key_fixed)
    from Cons.prems(1) Some obtain d where d: "rc_kw = PyDict d"
      and r: "parse_format_loop t rest (PyDict (dict_set d key_fixed v)) kw = Inr (rc_kw', kw')"
      by (cases rc_kw) (simp_all add: kv)
    have "fst ` set rest \<inter> fst ` set kw = {}" using Cons.prems(3) by auto
    from Cons.IH[OF r _ this] Cons.prems(2) Some show ?thesis by (simp add: kv)
  qed
qed

lemma parse_format_kw:
  assumes "parse_format t kwargs = Inr (rc_kw, rc_mode, kw)" and "distinct (map fst kwargs)"
  shows "kw = filter (\<lambda>(k, v). k \<noteq> ''mode'' \<and> k \<noteq> ''rc_kw'' \<and> t k = None) kwargs"
proof -
  let ?rest = "filter (\<lambda>(k, v). k \<noteq> ''mode'' \<and> k \<noteq> ''rc_kw'') kwargs"
  from assms(1) obtain r0 where
    "parse_format_loop t ?rest r0 [] = Inr (rc_kw, kw)"
    unfolding parse_format_def Let_def by (auto split: sum.splits prod.splits)
  moreover have "distinct (map fst ?rest)" using assms(2) by (rule distinct_map_filter)
  ultimately have "kw = [] @ filter (\<lambda>(k, v). t k = None) ?rest"
    by (intro parse_format_loop_kw) simp_all
  also have "\<dots> = filter (\<lambda>(k, v). k \<noteq> ''mode'' \<and> k \<noteq> ''rc_kw'' \<and> t k = None) kwargs"
    by (simp add: conj_commute case_prod_unfold conj_left_commute)
  finally show ?thesis .
qed

lemma format_shape:
  assumes "distinct (map fst ckw)" and "format env ckw = Inr tr"
  shows "\<exists>rc_kw rc_mode setters lonarray latarray.
      parse_format (fe_rc_nodots env) (format_kwargs ckw) =
        Inr (rc_kw, rc_mode,
             filter (\<lambda>(k, v). k \<notin> set format_declared \<and> k \<noteq> ''mode'' \<and> k \<noteq> ''rc_kw''
                              \<and> fe_rc_nodots env k = None) ckw)
      \<and> to_label_array (format_lonlabels env ckw)
            (fe_atleast_1d env (format_lonlabels env ckw)) True = Inr lonarray
      \<and> to_label_array (format_latlabels env ckw)
            (fe_atleast_1d env (format_latlabels env ckw)) False = Inr latarray
      \<and> list_all is_setter setters
      \<and> tr = RcContext rc_kw rc_mode # setters @ format_workers env ckw lonarray latarray @
               [SuperFormat
                  (filter (\<lambda>(k, v). k \<notin> set format_declared \<and> k \<noteq> ''mode'' \<and> k \<noteq> ''rc_kw''
                                   \<and> fe_rc_nodots env k = None) ckw)]"
proof -
  from assms(2) obtain rc_kw rc_mode kwargs tr0 lonarray latarray tr1 where
    p: "parse_format (fe_rc_nodots env) (format_kwargs ckw) = Inr (rc_kw, rc_mode, kwargs)"
    and c: "do_call (fe_extern env) (RcContext rc_kw rc_mode) [] = Inr tr0"
    and lon: "to_label_array (format_lonlabels env ckw)
            (fe_atleast_1d env (format_lonlabels env ckw)) True = Inr lonarray"
    and lat: "to_label_array (format_latlabels env ckw)
            (fe_atleast_1d env (format_latlabels env ckw)) False = Inr latarray"
    and s: "steps (format_setters env ckw @
              map (do_call (fe_extern env)) (format_workers env ckw lonarray latarray)) tr0
            = Inr tr1"
    and f: "do_call (fe_extern env) (SuperFormat kwargs) tr1 = Inr tr"
    unfolding format_def by (auto split: sum.splits prod.splits)
  from c have tr0: "tr0 = [RcContext rc_kw rc_mode]" by (auto dest: do_call_Inr)
  from s obtain tr2 where s1: "steps (format_setters env ckw) tr0 = Inr tr2"
    and s2: "steps (map (do_call (fe_extern env)) (format_workers env ckw lonarray latarray)) tr2
             = Inr tr1"
    unfolding steps_append by (auto split: sum.splits)
  have "\<exists>ss. tr2 = tr0 @ ss \<and> list_all is_setter ss"
    by (rule steps_setters[OF _ s1]) (rule format_setters_step)
  then obtain setters where ss: "tr2 = tr0 @ setters" "list_all is_setter setters" by blast
  from s2 have w: "tr1 = tr2 @ format_workers env ckw lonarray latarray"
    by (rule steps_do_calls)
  from f have l: "tr = tr1 @ [SuperFormat kwargs]" by (rule do_call_Inr)
  have "distinct (map fst (format_kwargs ckw))"
    unfolding format_kwargs_def using assms(1) by (rule distinct_map_filter)
  from parse_format_kw[OF p this]
  have k: "kwargs = filter (\<lambda>(k, v). k \<notin> set format_declared \<and> k \<noteq> ''mode'' \<and> k \<noteq> ''rc_kw''
                              \<and> fe_rc_nodots env k = None) ckw"
    by (simp add: format_kwargs_def case_prod_unfold conj_commute conj_left_commute)
  have "tr = RcContext rc_kw rc_mode # setters @ format_workers env ckw lonarray latarray @
               [SuperFormat kwargs]"
    using tr0 ss(1) w l by simp
  with p lon lat ss(2) show ?thesis unfolding k by blast
qed

lemma format_returns:
  assumes p: "parse_format (fe_rc_nodots env) (format_kwargs ckw) = Inr r"
    and e: "\<And>c. fe_extern env c = None"
    and lon: "to_label_array (format_lonlabels env ckw)
            (fe_atleast_1d env (format_lonlabels env ckw)) True = Inr lonarray"
    and lat: "to_label_array (format_latlabels env ckw)
            (fe_atleast_1d env (format_latlabels env ckw)) False = Inr latarray"
  shows "\<exists>tr. format env ckw = Inr tr"
proof -
  obtain rc_kw rc_mode kwargs where r: "r = (rc_kw, rc_mode, kwargs)" by (cases r)
  have "\<exists>tr1. steps (format_setters env ckw) [RcContext rc_kw rc_mode] = Inr tr1"
    by (rule steps_total) (rule format_setters_total[OF e])
  then obtain tr1 where "steps (format_setters env ckw) [RcContext rc_kw rc_mode] = Inr tr1"
    by blast
  then show ?thesis
    unfolding format_def
    by (simp add: p r lon lat do_call_total[OF e] steps_append steps_do_calls_total[OF e])
qed

lemma to_label_array_only_ValueError:
  "to_label_array labels np_array lon = Inl ValueError
   \<or> (\<exists>array. to_label_array labels np_array lon = Inr array)"
  unfolding to_label_array_def Let_def by auto

text \<open>
  Claim C6, amended. The keywords of a call that \<^verbatim>\<open>format\<close> does not declare are the ones
  it hands to \<^verbatim>\<open>_parse_format\<close>. Whenever \<^verbatim>\<open>format\<close> returns, it has entered the context
  of \<^verbatim>\<open>rc\<close> that \<^verbatim>\<open>_parse_format\<close> produced, made setter calls only, then applied the
  geographic settings with its five worker methods in their order, and at the end passed to
  the parent's \<^verbatim>\<open>format\<close> every keyword of the call, with its value and in the order of
  the call, that is not declared, is not \<^verbatim>\<open>mode\<close> or \<^verbatim>\<open>rc_kw\<close> and does not name a
  setting of \<^verbatim>\<open>rc\<close>. It does return when \<^verbatim>\<open>_parse_format\<close> returns, no call raises and
  both label specifications are valid. A call gives each keyword once.
\<close>

theorem format_passes_kwargs:
  "(distinct (map fst ckw) \<and> format env ckw = Inr tr \<longrightarrow>
      (\<exists>rc_kw rc_mode setters lonarray latarray.
         parse_format (fe_rc_nodots env) (format_kwargs ckw) =
           Inr (rc_kw, rc_mode,
                filter (\<lambda>(k, v). k \<notin> set format_declared \<and> k \<noteq> ''mode'' \<and> k \<noteq> ''rc_kw''
                                 \<and> fe_rc_nodots env k = None) ckw)
         \<and> to_label_array (format_lonlabels env ckw)
               (fe_atleast_1d env (format_lonlabels env ckw)) True = Inr lonarray
         \<and> to_label_array (format_latlabels env ckw)
               (fe_atleast_1d env (format_latlabels env ckw)) False = Inr latarray
         \<and> list_all is_setter setters
         \<and> tr = RcContext rc_kw rc_mode # setters @ format_workers env ckw lonarray latarray @
                  [SuperFormat
                     (filter (\<lambda>(k, v). k \<notin> set format_declared \<and> k \<noteq> ''mode''
                                      \<and> k \<noteq> ''rc_kw'' \<and> fe_rc_nodots env k = None) ckw)]))
   \<and> ((\<exists>r. parse_format (fe_rc_nodots env) (format_kwargs ckw) = Inr r)
       \<and> (\<forall>c. fe_extern env c = None)
       \<and> to_label_array (format_lonlabels env ckw)
             (fe_atleast_1d env (format_lonlabels env ckw)) True \<noteq> Inl ValueError
       \<and> to_label_array (format_latlabels env ckw)
             (fe_atleast_1d env (format_latlabels env ckw)) False \<noteq> Inl ValueError \<longrightarrow>
      (\<exists>tr. format env ckw = Inr tr))"
proof (intro conjI impI)
  assume "distinct (map fst ckw) \<and> format env ckw = Inr tr"
  then show "\<exists>rc_kw rc_mode setters lonarray latarray.
         parse_format (fe_rc_nodots env) (format_kwargs ckw) =
           Inr (rc_kw, rc_mode,
                filter (\<lambda>(k, v). k \<notin> set format_declared \<and> k \<noteq> ''mode'' \<and> k \<noteq> ''rc_kw''
                                 \<and> fe_rc_nodots env k = None) ckw)
         \<and> to_label_array (format_lonlabels env ckw)
               (fe_atleast_1d env (format_lonlabels env ckw)) True = Inr lonarray
         \<and> to_label_array (format_latlabels env ckw)
               (fe_atleast_1d env (format_latlabels env ckw)) False = Inr latarray
         \<and> list_all is_setter setters
         \<and> tr = RcContext rc_kw rc_mode # setters @ format_workers env ckw lonarray latarray @
                  [SuperFormat
                     (filter (\<lambda>(k, v). k \<notin> set format_declared \<and> k \<noteq> ''mode''
                                      \<and> k \<noteq> ''rc_kw'' \<and> fe_rc_nodots env k = None) ckw)]"
    using format_shape[of ckw env tr] by blast
next
  assume a: "(\<exists>r. parse_format (fe_rc_nodots env) (format_kwargs ckw) = Inr r)
       \<and> (\<forall>c. fe_extern env c = None)
       \<and> to_label_array (format_lonlabels env ckw)
             (fe_atleast_1d env (format_lonlabels env ckw)) True \<noteq> Inl ValueError
       \<and> to_label_array (format_latlabels env ckw)
             (fe_atleast_1d env (format_latlabels env ckw)) False \<noteq> Inl ValueError"
  then obtain r where r: "parse_format (fe_rc_nodots env) (format_kwargs ckw) = Inr r"
    by blast
  from a to_label_array_only_ValueError[of "format_lonlabels env ckw"
      "fe_atleast_1d env (format_lonlabels env ckw)" True]
  obtain lonarray where lon: "to_label_array (format_lonlabels env ckw)
               (fe_atleast_1d env (format_lonlabels env ckw)) True = Inr lonarray"
    by blast
  from a to_label_array_only_ValueError[of "format_latlabels env ckw"
      "fe_atleast_1d env (format_latlabels env ckw)" False]
  obtain latarray where lat: "to_label_array (format_latlabels env ckw)
               (fe_atleast_1d env (format_latlabels env ckw)) False = Inr latarray"
    by blast
  from a have e: "\<And>c. fe_extern env c = None" by blast
  show "\<exists>tr. format env ckw = Inr tr"
    by (rule format_returns[OF r e lon lat])
qed

theorem format_passes_kwargs_witness:
  "distinct (map fst [(''lonlabels'', PyStr ''b''), (''latmax'', PyInt 80),
                      (''landcolor'', PyStr ''green''), (''title'', PyStr ''Map'')])
   \<and> format \<lparr>fe_rc_nodots = map_of [(''land'', ''land''), (''landcolor'', ''land.color'')],
             fe_rc = (\<lambda>key. PyNone),
             fe_atleast_1d = (\<lambda>v. case np_atleast_1d v of None \<Rightarrow> [] | Some a \<Rightarrow> a),
             fe_extern = (\<lambda>c. None)\<rparr>
       [(''lonlabels'', PyStr ''b''), (''latmax'', PyInt 80),
        (''landcolor'', PyStr ''green''), (''title'', PyStr ''Map'')]
     = Inr [RcContext (PyDict [(''land.color'', PyStr ''green'')]) (PyInt 2),
            SetLatmax (PyInt 80),
            UpdateExtent PyNone PyNone PyNone,
            UpdatePatches (PyDict []),
            UpdateFeatures,
            UpdateMajorGridlines PyNone PyNone [PyInt 0, PyInt 0, PyInt 1, PyInt 0]
              [PyNone, PyNone, PyNone, PyNone] PyNone PyNone PyNone PyNone,
            UpdateMinorGridlines PyNone PyNone,
            SuperFormat [(''title'', PyStr ''Map'')]]"
proof -
  let ?env = "\<lparr>fe_rc_nodots = map_of [(''land'', ''land''), (''landcolor'', ''land.color'')],
             fe_rc = (\<lambda>key. PyNone),
             fe_atleast_1d = (\<lambda>v. case np_atleast_1d v of None \<Rightarrow> [] | Some a \<Rightarrow> a),
             fe_extern = (\<lambda>c. None)\<rparr>"
  let ?ckw = "[(''lonlabels'', PyStr ''b''), (''latmax'', PyInt 80),
        (''landcolor'', PyStr ''green''), (''title'', PyStr ''Map'')]"
  have d: "distinct (map fst ?ckw)" by simp
  have k: "format_kwargs ?ckw = [(''landcolor'', PyStr ''green''), (''title'', PyStr ''Map'')]"
    by (simp add: format_kwargs_def format_declared_def)
  have p: "parse_format (fe_rc_nodots ?env) (format_kwargs ?ckw)
      = Inr (PyDict [(''land.color'', PyStr ''green'')], PyInt 2, [(''title'', PyStr ''Map'')])"
    unfolding k by (simp add: parse_format_def or_empty_dict_def)
  have lon: "to_label_array (format_lonlabels ?env ?ckw)
      (fe_atleast_1d ?env (format_lonlabels ?env ?ckw)) True
      = Inr [PyInt 0, PyInt 0, PyInt 1, PyInt 0]"
    by (simp add: format_lonlabels_def format_option_def format_arg_def to_label_array_def
        numeral_eq_Suc)
  have lat: "to_label_array (format_latlabels ?env ?ckw)
      (fe_atleast_1d ?env (format_latlabels ?env ?ckw)) False
      = Inr [PyNone, PyNone, PyNone, PyNone]"
    by (simp add: format_latlabels_def format_option_def format_arg_def to_label_array_def
        numeral_eq_Suc)
  have "\<exists>tr. format ?env ?ckw = Inr tr"
    using format_passes_kwargs[of ?ckw ?env "[]", THEN conjunct2] p lon lat by simp
  then obtain tr where tr: "format ?env ?ckw = Inr tr" by blast
  from format_passes_kwargs[of ?ckw ?env tr, THEN conjunct1] d tr
  obtain rc_kw rc_mode setters lonarray latarray where
    s: "parse_format (fe_rc_nodots ?env) (format_kwargs ?ckw) =
           Inr (rc_kw, rc_mode,
                filter (\<lambda>(k, v). k \<notin> set format_declared \<and> k \<noteq> ''mode'' \<and> k \<noteq> ''rc_kw''
                                 \<and> fe_rc_nodots ?env k = None) ?ckw)"
    "to_label_array (format_lonlabels ?env ?ckw)
               (fe_atleast_1d ?env (format_lonlabels ?env ?ckw)) True = Inr lonarray"
    "to_label_array (format_latlabels ?env ?ckw)
               (fe_atleast_1d ?env (format_latlabels ?env ?ckw)) False = Inr latarray"
    "list_all is_setter setters"
    "tr = RcContext rc_kw rc_mode # setters @ format_workers ?env ?ckw lonarray latarray @
                  [SuperFormat
                     (filter (\<lambda>(k, v). k \<notin> set format_declared \<and> k \<noteq> ''mode''
                                      \<and> k \<noteq> ''rc_kw'' \<and> fe_rc_nodots ?env k = None) ?ckw)]"
    by blast
  have "format ?env ?ckw = Inr [RcContext (PyDict [(''land.color'', PyStr ''green'')]) (PyInt 2),
            SetLatmax (PyInt 80),
            UpdateExtent PyNone PyNone PyNone,
            UpdatePatches (PyDict []),
            UpdateFeatures,
            UpdateMajorGridlines PyNone PyNone [PyInt 0, PyInt 0, PyInt 1, PyInt 0]
              [PyNone, PyNone, PyNone, PyNone] PyNone PyNone PyNone PyNone,
            UpdateMinorGridlines PyNone PyNone,
            SuperFormat [(''title'', PyStr ''Map'')]]"
    unfolding format_def p lon lat
    by (simp add: do_call_def call_if_def format_setters_def format_workers_def
        format_option_def format_alias_def format_arg_def or_empty_dict_def Let_def)
  with d show ?thesis by simp
qed

text \<open>
  A call with a longitude label specification of three entries raises \<^verbatim>\<open>ValueError\<close>
  from \<^verbatim>\<open>_to_label_array\<close> at line 386: no geographic setting is applied and the parent's
  format is never called. A call with the keywords \<^verbatim>\<open>landcolor\<close> and \<^verbatim>\<open>title\<close>
  returns, and the parent's format gets \<^verbatim>\<open>title\<close> only: \<^verbatim>\<open>landcolor\<close> is not declared
  by \<^verbatim>\<open>format\<close>, and it goes to the context of \<^verbatim>\<open>rc\<close> as the setting \<^verbatim>\<open>land.color\<close>.
\<close>

theorem format_passes_kwargs_counterexample:
  "format \<lparr>fe_rc_nodots = map_of [(''land'', ''land''), (''landcolor'', ''land.color'')],
           fe_rc = (\<lambda>key. PyNone),
           fe_atleast_1d = (\<lambda>v. case np_atleast_1d v of None \<Rightarrow> [] | Some a \<Rightarrow> a),
           fe_extern = (\<lambda>c. None)\<rparr>
     [(''lonlabels'', PySeq [PyBool True, PyBool True, PyBool True]),
      (''title'', PyStr ''Map'')]
   = Inl ValueError
   \<and> format \<lparr>fe_rc_nodots = map_of [(''land'', ''land''), (''landcolor'', ''land.color'')],
             fe_rc = (\<lambda>key. PyNone),
             fe_atleast_1d = (\<lambda>v. case np_atleast_1d v of None \<Rightarrow> [] | Some a \<Rightarrow> a),
             fe_extern = (\<lambda>c. None)\<rparr>
       [(''landcolor'', PyStr ''green''), (''title'', PyStr ''Map'')]
     = Inr [RcContext (PyDict [(''land.color'', PyStr ''green'')]) (PyInt 2),
            UpdateExtent PyNone PyNone PyNone,
            UpdatePatches (PyDict []),
            UpdateFeatures,
            UpdateMajorGridlines PyNone PyNone [PyNone, PyNone, PyNone, PyNone]
              [PyNone, PyNone, PyNone, PyNone] PyNone PyNone PyNone PyNone,
            UpdateMinorGridlines PyNone PyNone,
            SuperFormat [(''title'', PyStr ''Map'')]]"
  by (simp add: format_def format_kwargs_def format_declared_def parse_format_def
      or_empty_dict_def do_call_def call_if_def format_setters_def format_workers_def
      format_lonlabels_def format_latlabels_def format_option_def format_alias_def
      format_arg_def to_label_array_def np_atleast_1d_seq_def Let_def numeral_eq_Suc)

end
